theory Spec2Isabelle
  imports Complex_Main
begin

section \<open>GUNNS fluid distributed interface link\<close>

text \<open>
  A shallow embedding of \<^verbatim>\<open>GunnsFluidDistributedIf\<close> and of its payload class
  \<^verbatim>\<open>GunnsFluidDistributedIfData\<close>.  Every C++ \<^verbatim>\<open>double\<close> is a \<^typ>\<open>real\<close>: the
  development is about the control flow and the algebra of the link, not about IEEE
  rounding, infinities or NaN.  Unsigned counters and array sizes are \<^typ>\<open>nat\<close>, signed
  counters are \<^typ>\<open>int\<close>, arrays are lists whose length is the allocated size.
\<close>

subsection \<open>Constants of the C library and of the unit conversions\<close>

definition DBL_EPSILON :: real where
  "DBL_EPSILON = 1 / 2 ^ 52"

definition FLT_EPSILON :: real where
  "FLT_EPSILON = 1 / 2 ^ 23"

text \<open>
  Modelled from the spec: \<^verbatim>\<open>UnitConversion\<close> is not among the sources.  The link
  converts Pa to kPa and mol/s to kmol/s with \<^verbatim>\<open>KILO_PER_UNIT\<close>, and back with
  \<^verbatim>\<open>UNIT_PER_KILO\<close>.
\<close>

definition KILO_PER_UNIT :: real where
  "KILO_PER_UNIT = 1 / 1000"

definition UNIT_PER_KILO :: real where
  "UNIT_PER_KILO = 1000"

text \<open>
  Modelled from the spec: \<^verbatim>\<open>MsMath::limitRange\<close> is not among the sources; the spec
  writes it \<^verbatim>\<open>clamp(lower, x, upper)\<close>.
\<close>

definition limitRange :: "'a::linorder \<Rightarrow> 'a \<Rightarrow> 'a \<Rightarrow> 'a" where
  "limitRange lower x upper = max (min x upper) lower"

subsection \<open>The interface payload\<close>

text \<open>
  Modelled from the spec: the class declaration (the header) is not among the sources.
  The frame counters are unsigned and only ever incremented: they are unbounded naturals
  here (the spec: a monotonically increasing integer that starts at 0).
\<close>

record GunnsFluidDistributedIfData =
  mFrameCount      :: nat
  mFrameLoopback   :: nat
  mDemandMode      :: bool
  mCapacitance     :: real
  mSource          :: real
  mEnergy          :: real
  mMoleFractions   :: "real list"
  mTcMoleFractions :: "real list"
  mNumFluid        :: nat
  mNumTc           :: nat
  mNumFluidIf      :: nat
  mNumTcIf         :: nat
  mNumFluidCommon  :: nat
  mNumTcCommon     :: nat

text \<open>The default constructor: null arrays are empty lists.\<close>

definition newIfData :: GunnsFluidDistributedIfData where
  "newIfData =
     \<lparr> mFrameCount = 0, mFrameLoopback = 0, mDemandMode = False, mCapacitance = 0,
       mSource = 0, mEnergy = 0, mMoleFractions = [], mTcMoleFractions = [],
       mNumFluid = 0, mNumTc = 0, mNumFluidIf = 0, mNumTcIf = 0,
       mNumFluidCommon = 0, mNumTcCommon = 0 \<rparr>"

text \<open>
  \<^verbatim>\<open>initialize\<close>: the interface widths are the network's sizes unless overridden; the
  arrays are allocated with the interface width and zeroed (and left alone when that
  width is 0).  The instance name only labels the allocation.
\<close>

definition initializeData ::
  "nat \<Rightarrow> nat \<Rightarrow> bool \<Rightarrow> nat \<Rightarrow> nat \<Rightarrow> GunnsFluidDistributedIfData \<Rightarrow> GunnsFluidDistributedIfData"
where
  "initializeData nFluids nTc fluidSizesOverride nIfFluids nIfTc d =
     (let numFluidIf = (if fluidSizesOverride then nIfFluids else nFluids);
          numTcIf    = (if fluidSizesOverride then nIfTc else nTc)
      in d\<lparr> mNumFluid := nFluids, mNumTc := nTc,
            mNumFluidIf := numFluidIf, mNumTcIf := numTcIf,
            mNumFluidCommon := min nFluids numFluidIf,
            mNumTcCommon := min nTc numTcIf,
            mMoleFractions :=
              (if numFluidIf > 0 then replicate numFluidIf 0 else mMoleFractions d),
            mTcMoleFractions :=
              (if numTcIf > 0 then replicate numTcIf 0 else mTcMoleFractions d) \<rparr>)"

text \<open>
  The loop \<^verbatim>\<open>for (i = ...) if (a[i] < 0.0) return false;\<close> over a list of indices.
  \<open>Some True\<close>: a negative entry was met; \<open>Some False\<close>: the loop ran to its end;
  \<open>None\<close>: the loop read past the end of the array before meeting a negative entry,
  which C++ leaves undefined.
\<close>

fun scanNegative :: "real list \<Rightarrow> nat list \<Rightarrow> bool option" where
  "scanNegative a [] = Some False"
| "scanNegative a (i # is) =
     (if i < length a
      then (if a ! i < 0 then Some True else scanNegative a is)
      else None)"

text \<open>
  \<^verbatim>\<open>hasValidData\<close>.  Both loops run to the network's sizes \<^verbatim>\<open>mNumFluid\<close> and
  \<^verbatim>\<open>mNumTc\<close>, as in the source, while the arrays have the interface's widths.
\<close>

definition hasValidData :: "GunnsFluidDistributedIfData \<Rightarrow> bool option" where
  "hasValidData d =
     (if mFrameCount d < 1 \<or> mEnergy d \<le> 0 \<or> mCapacitance d < 0
         \<or> (mSource d < 0 \<and> \<not> mDemandMode d)
      then Some False
      else case scanNegative (mMoleFractions d) [0..<mNumFluid d] of
             None \<Rightarrow> None
           | Some True \<Rightarrow> Some False
           | Some False \<Rightarrow>
               (case scanNegative (mTcMoleFractions d) [0..<mNumTc d] of
                  None \<Rightarrow> None
                | Some True \<Rightarrow> Some False
                | Some False \<Rightarrow> Some True))"

text \<open>
  The validity predicate in the spec's words (its section 3), over every entry the
  payload holds, to be compared with what \<open>hasValidData\<close> answers.
\<close>

definition validPayload :: "GunnsFluidDistributedIfData \<Rightarrow> bool" where
  "validPayload d \<longleftrightarrow>
     1 \<le> mFrameCount d \<and> 0 < mEnergy d \<and> 0 \<le> mCapacitance d
     \<and> (mDemandMode d \<or> 0 \<le> mSource d)
     \<and> list_all (\<lambda>x. 0 \<le> x) (mMoleFractions d)
     \<and> list_all (\<lambda>x. 0 \<le> x) (mTcMoleFractions d)"

text \<open>
  \<^verbatim>\<open>setMoleFractions\<close> and \<^verbatim>\<open>setTcMoleFractions\<close> write the interface array in place:
  the common prefix from the given array, zeroes up to the interface width, the rest
  untouched.
\<close>

definition setMoleFractions ::
  "real list \<Rightarrow> GunnsFluidDistributedIfData \<Rightarrow> GunnsFluidDistributedIfData" where
  "setMoleFractions fractions d =
     d\<lparr> mMoleFractions :=
          map (\<lambda>i. if i < mNumFluidCommon d then fractions ! i
                   else if i < mNumFluidIf d then 0
                   else mMoleFractions d ! i)
              [0..<length (mMoleFractions d)] \<rparr>"

definition setTcMoleFractions ::
  "real list \<Rightarrow> GunnsFluidDistributedIfData \<Rightarrow> GunnsFluidDistributedIfData" where
  "setTcMoleFractions fractions d =
     d\<lparr> mTcMoleFractions :=
          map (\<lambda>i. if i < mNumTcCommon d then fractions ! i
                   else if i < mNumTcIf d then 0
                   else mTcMoleFractions d ! i)
              [0..<length (mTcMoleFractions d)] \<rparr>"

text \<open>
  \<^verbatim>\<open>getMoleFractions\<close> and \<^verbatim>\<open>getTcMoleFractions\<close> write the caller's array in
  place and return nothing: the model returns the caller's array after the call.  The
  common prefix comes from the interface, zeroes follow up to the network's size, the
  rest is untouched.
\<close>

definition getMoleFractions :: "GunnsFluidDistributedIfData \<Rightarrow> real list \<Rightarrow> real list" where
  "getMoleFractions d fractions =
     map (\<lambda>i. if i < mNumFluidCommon d then mMoleFractions d ! i
              else if i < mNumFluid d then 0
              else fractions ! i)
         [0..<length fractions]"

definition getTcMoleFractions :: "GunnsFluidDistributedIfData \<Rightarrow> real list \<Rightarrow> real list" where
  "getTcMoleFractions d fractions =
     map (\<lambda>i. if i < mNumTcCommon d then mTcMoleFractions d ! i
              else if i < mNumTc d then 0
              else fractions ! i)
         [0..<length fractions]"

text \<open>
  The sizes \<^verbatim>\<open>initialize\<close> gives a payload; no method changes them afterwards.  On
  such a payload every read of \<open>setMoleFractions\<close> and \<open>getMoleFractions\<close> stays
  inside the interface array.
\<close>

definition data_wf :: "GunnsFluidDistributedIfData \<Rightarrow> bool" where
  "data_wf d \<longleftrightarrow>
     length (mMoleFractions d) = mNumFluidIf d \<and>
     length (mTcMoleFractions d) = mNumTcIf d \<and>
     mNumFluidCommon d = min (mNumFluid d) (mNumFluidIf d) \<and>
     mNumTcCommon d = min (mNumTc d) (mNumTcIf d)"

subsection \<open>Results of calls that may throw\<close>

datatype exception = TsOutOfBoundsException | TsInitializationException

text \<open>
  A call returns a value and leaves a state, or throws and leaves the state it had
  reached (a C++ object keeps what was written before the throw), or has no defined
  behaviour (a read past the end of an array).
\<close>

datatype ('r, 's) outcome = Returned 'r 's | Threw exception 's | Undefined

subsection \<open>The collaborators of the link\<close>

text \<open>
  Modelled from the spec: \<^verbatim>\<open>PolyFluid\<close>, \<^verbatim>\<open>GunnsFluidTraceCompounds\<close>,
  \<^verbatim>\<open>PolyFluidConfigData\<close>, \<^verbatim>\<open>GunnsFluidUtils\<close>, \<^verbatim>\<open>GunnsFluidNode\<close> and
  \<^verbatim>\<open>GunnsFluidCapacitor\<close> are not among the sources.  A fluid is the state the link
  reads and writes: mass, mass fractions, pressure, temperature and, when the fluid has a
  trace-compounds object, the list of its mole fractions (as long as its configuration
  says).  The fluid model's property functions are parameters held by the configuration.
\<close>

record PolyFluid =
  pfMass           :: real
  pfMassFractions  :: "real list"
  pfPressure       :: real
  pfTemperature    :: real
  pfTraceCompounds :: "real list option"

record PolyFluidConfigData =
  mNTypes                           :: nat
  convertMoleFractionToMassFraction :: "real list \<Rightarrow> real list"
  convertMassFractionToMoleFraction :: "real list \<Rightarrow> real list"
  computeTemperature                :: "PolyFluid \<Rightarrow> real \<Rightarrow> real"
  getSpecificEnthalpy               :: "PolyFluid \<Rightarrow> real"

record GunnsFluidNode =
  nPotential                  :: real
  nVolume                     :: real
  nContent                    :: PolyFluid
  nInflow                     :: PolyFluid
  nFluidConfig                :: PolyFluidConfigData
  nNetworkCapacitance         :: real
  nNetCapDeltaPotential       :: "nat \<Rightarrow> real"
  nNetworkCapacitanceRequest  :: real

text \<open>
  The capacitor link of the node: \<^verbatim>\<open>editVolume(flag, volume)\<close> records the request,
  which the capacitor applies to the node's volume in its own step.
\<close>

record GunnsFluidCapacitor =
  mEditVolumeFlag :: bool
  mEditVolume     :: real

definition editVolume :: "bool \<Rightarrow> real \<Rightarrow> GunnsFluidCapacitor \<Rightarrow> GunnsFluidCapacitor" where
  "editVolume flag volume c = c\<lparr> mEditVolumeFlag := flag, mEditVolume := volume \<rparr>"

text \<open>
  What this link reads of another interface link of the same network: the capacitance it
  supplies and the node its port 0 is on.
\<close>

record OtherIf =
  oSuppliedCapacitance :: real
  oNodeMap0            :: nat

subsection \<open>The link\<close>

text \<open>
  The attributes of \<^verbatim>\<open>GunnsFluidDistributedIf\<close>, with those of its base classes that
  the link uses: the blockage malfunction, the one-by-one admittance matrix and source
  vector, the conductance limit, the flux, the internal fluid, the node of port 0 and its
  index.  The class declaration is not among the sources: \<^verbatim>\<open>mFramesSinceFlip\<close> and
  \<^verbatim>\<open>mLoopLatency\<close> are taken as signed integers that do not overflow, and the link
  holds its capacitor link (\<^verbatim>\<open>validate\<close> refuses a null pointer).  The other
  interface links are read through \<open>mOtherIfs\<close> as they are when the link looks.
\<close>

record GunnsFluidDistributedIf =
  mInData                 :: GunnsFluidDistributedIfData
  mOutData                :: GunnsFluidDistributedIfData
  mIsPairMaster           :: bool
  mUseEnthalpy            :: bool
  mDemandOption           :: bool
  mCapacitorLink          :: GunnsFluidCapacitor
  mModingCapacitanceRatio :: real
  mDemandFilterConstA     :: real
  mDemandFilterConstB     :: real
  mForceDemandMode        :: bool
  mForceSupplyMode        :: bool
  mInDataLastDemandMode   :: bool
  mFramesSinceFlip        :: int
  mSupplyVolume           :: real
  mEffectiveConductivity  :: real
  mSourcePressure         :: real
  mDemandFlux             :: real
  mLoopLatency            :: int
  mDemandFluxGain         :: real
  mSuppliedCapacitance    :: real
  mTempMassFractions      :: "real list"
  mTempMoleFractions      :: "real list"
  mTempTcMoleFractions    :: "real list"
  mOtherIfs               :: "OtherIf list"
  mFluidState             :: PolyFluid
  mMalfBlockageFlag       :: bool
  mMalfBlockageValue      :: real
  mAdmittanceMatrix       :: real
  mAdmittanceUpdate       :: bool
  mSourceVector           :: real
  mConductanceLimit       :: real
  mFlux                   :: real
  mInternalFluid          :: PolyFluid
  mNode                   :: GunnsFluidNode
  mNodeMap0               :: nat

definition mNetworkCapacitanceFlux :: real where
  "mNetworkCapacitanceFlux = 1 / 10 ^ 6"

text \<open>
  The loop \<^verbatim>\<open>for (i = 0; i < n; ++i) a[i] = f(i);\<close> on the array \<open>a\<close>, and the loop
  \<^verbatim>\<open>for (i = 0; i < n; ++i) sum += a[i];\<close> from \<open>sum = 0\<close>.  They are the source's
  loops as long as \<open>n\<close> is at most the length of the array, which holds for the temporary
  arrays of an initialised link: they have the sizes of the network's configuration.
\<close>

definition writePrefix :: "nat \<Rightarrow> (nat \<Rightarrow> real) \<Rightarrow> real list \<Rightarrow> real list" where
  "writePrefix n f a = map (\<lambda>i. if i < n then f i else a ! i) [0..<length a]"

definition sumPrefix :: "nat \<Rightarrow> real list \<Rightarrow> real" where
  "sumPrefix n a = (\<Sum>i\<leftarrow>[0..<n]. a ! i)"

subsection \<open>Mode flips\<close>

definition flipToDemandMode :: "GunnsFluidDistributedIf \<Rightarrow> GunnsFluidDistributedIf" where
  "flipToDemandMode s =
     (if \<not> mForceSupplyMode s
      then s\<lparr> mOutData := (mOutData s)\<lparr> mDemandMode := True \<rparr>,
              mSupplyVolume := nVolume (mNode s),
              mCapacitorLink := editVolume True 0 (mCapacitorLink s),
              mFramesSinceFlip := 0 \<rparr>
      else s)"

definition flipToSupplyMode :: "GunnsFluidDistributedIf \<Rightarrow> GunnsFluidDistributedIf" where
  "flipToSupplyMode s =
     (if \<not> mForceDemandMode s
      then s\<lparr> mOutData := (mOutData s)\<lparr> mDemandMode := False \<rparr>,
              mCapacitorLink := editVolume True (mSupplyVolume s) (mCapacitorLink s),
              mSupplyVolume := 0,
              mFramesSinceFlip := 0 \<rparr>
      else s)"

definition flipModesOnInput ::
  "GunnsFluidDistributedIf \<Rightarrow> (unit, GunnsFluidDistributedIf) outcome" where
  "flipModesOnInput s =
     (if mForceDemandMode s \<and> \<not> mDemandMode (mOutData s) then
        Returned () (flipToDemandMode s)
      else if mForceSupplyMode s \<and> mDemandMode (mOutData s) then
        Returned () (flipToSupplyMode s)
      else case hasValidData (mInData s) of
             None \<Rightarrow> Undefined
           | Some False \<Rightarrow> Returned () s
           | Some True \<Rightarrow>
               (let s1 =
                  (if mDemandMode (mOutData s) \<and> mDemandMode (mInData s)
                      \<and> \<not> mInDataLastDemandMode s then
                     flipToSupplyMode s
                   else if \<not> mDemandMode (mInData s) \<and> \<not> mDemandMode (mOutData s) then
                     (if mCapacitance (mOutData s) < mCapacitance (mInData s)
                         \<or> (mIsPairMaster s
                             \<and> mCapacitance (mOutData s) = mCapacitance (mInData s))
                      then flipToDemandMode s
                      else s)
                   else s)
                in Returned () (s1\<lparr> mInDataLastDemandMode := mDemandMode (mInData s) \<rparr>)))"

text \<open>
  \<^verbatim>\<open>flipModesOnCapacitance\<close>: the source is zeroed whenever the condition holds, also
  when \<open>flipToDemandMode\<close> was held back by the Supply force flag.
\<close>

definition flipModesOnCapacitance :: "GunnsFluidDistributedIf \<Rightarrow> GunnsFluidDistributedIf" where
  "flipModesOnCapacitance s =
     (if mFramesSinceFlip s > mLoopLatency s
         \<and> mCapacitance (mOutData s) * mModingCapacitanceRatio s < mCapacitance (mInData s)
      then (let s1 = flipToDemandMode s
            in s1\<lparr> mOutData := (mOutData s1)\<lparr> mSource := 0 \<rparr> \<rparr>)
      else s)"

subsection \<open>Processing the incoming payload\<close>

text \<open>
  \<^verbatim>\<open>inputFluid(pressure, fluid)\<close> returns the sum of the incoming bulk mole fractions
  and writes the fluid it is given; the model returns that sum with the fluid after the
  call.  \<^verbatim>\<open>GUNNS_ERROR\<close> throws, before anything but the temporary array of mole
  fractions has been written.  The test \<^verbatim>\<open>if (mInData.mTcMoleFractions)\<close> is that of a
  null array.
\<close>

definition inputFluid ::
  "real \<Rightarrow> PolyFluid \<Rightarrow> GunnsFluidDistributedIf
     \<Rightarrow> (real \<times> PolyFluid, GunnsFluidDistributedIf) outcome" where
  "inputFluid pressure fluid s =
     (let fluidConfig = nFluidConfig (mNode s);
          s1 = s\<lparr> mTempMoleFractions := getMoleFractions (mInData s) (mTempMoleFractions s) \<rparr>;
          inBulkFractionSum = sumPrefix (mNTypes fluidConfig) (mTempMoleFractions s1)
      in if inBulkFractionSum < DBL_EPSILON then Threw TsOutOfBoundsException s1
         else
           (let s2 = s1\<lparr> mTempMoleFractions :=
                        writePrefix (mNTypes fluidConfig)
                          (\<lambda>i. mTempMoleFractions s1 ! i / inBulkFractionSum)
                          (mTempMoleFractions s1) \<rparr>;
                s3 = s2\<lparr> mTempMassFractions :=
                        convertMoleFractionToMassFraction fluidConfig (mTempMoleFractions s2) \<rparr>;
                f1 = fluid\<lparr> pfMass := 0, pfMassFractions := mTempMassFractions s3 \<rparr>;
                f2 = f1\<lparr> pfPressure := pressure \<rparr>;
                f3 = (if mUseEnthalpy s3
                      then f2\<lparr> pfTemperature :=
                                computeTemperature fluidConfig f2 (mEnergy (mInData s3)) \<rparr>
                      else f2\<lparr> pfTemperature := mEnergy (mInData s3) \<rparr>)
            in if mTcMoleFractions (mInData s3) \<noteq> [] then
                 (case pfTraceCompounds f3 of
                    None \<Rightarrow> Returned (inBulkFractionSum, f3) s3
                  | Some tc \<Rightarrow>
                      (let t1 = getTcMoleFractions (mInData s3) (mTempTcMoleFractions s3);
                           t2 = writePrefix (length tc) (\<lambda>i. t1 ! i / inBulkFractionSum) t1
                       in Returned
                            (inBulkFractionSum,
                             f3\<lparr> pfTraceCompounds :=
                                   Some (writePrefix (length tc) (\<lambda>i. t2 ! i) tc) \<rparr>)
                            (s3\<lparr> mTempTcMoleFractions := t2 \<rparr>)))
               else Returned (inBulkFractionSum, f3) s3))"

definition processInputsSupply ::
  "GunnsFluidDistributedIf \<Rightarrow> (unit, GunnsFluidDistributedIf) outcome" where
  "processInputsSupply s =
     (let s0 = s\<lparr> mDemandFlux := 0 \<rparr>
      in if \<not> mDemandMode (mOutData s0) then
           (let s1 = s0\<lparr> mSourcePressure := 0 \<rparr>
            in case hasValidData (mInData s1) of
                 None \<Rightarrow> Undefined
               | Some v \<Rightarrow>
                   if v \<and> mDemandMode (mInData s1) then
                     (case inputFluid 1 (mInternalFluid s1) s1 of
                        Returned (bulk, fluid) s2 \<Rightarrow>
                          Returned ()
                            (s2\<lparr> mInternalFluid := fluid,
                                 mDemandFlux :=
                                   - mSource (mInData s2) * KILO_PER_UNIT * bulk \<rparr>)
                      | Threw e s2 \<Rightarrow> Threw e s2
                      | Undefined \<Rightarrow> Undefined)
                   else Returned () s1)
         else Returned () s0)"

definition processInputsDemand ::
  "GunnsFluidDistributedIf \<Rightarrow> (unit, GunnsFluidDistributedIf) outcome" where
  "processInputsDemand s =
     (if mDemandMode (mOutData s) then
        (case hasValidData (mInData s) of
           None \<Rightarrow> Undefined
         | Some v \<Rightarrow>
             if v \<and> \<not> mDemandMode (mInData s) then
               (let s1 = s\<lparr> mSourcePressure := mSource (mInData s) * KILO_PER_UNIT \<rparr>
                in case inputFluid (mSourcePressure s1) (nContent (mNode s1)) s1 of
                     Returned (bulk, fluid) s2 \<Rightarrow>
                       Returned ()
                         (s2\<lparr> mNode := (mNode s2)\<lparr> nContent := fluid \<rparr>,
                              mFluidState := fluid \<rparr>)
                   | Threw e s2 \<Rightarrow> Threw e s2
                   | Undefined \<Rightarrow> Undefined)
             else Returned () (s\<lparr> mSourcePressure := nPotential (mNode s) \<rparr>))
      else Returned () s)"

text \<open>
  \<^verbatim>\<open>processInputs\<close>: the three calls in the source's order, a throw ending the call
  where it happens, then the frame counters.
\<close>

definition processInputs ::
  "GunnsFluidDistributedIf \<Rightarrow> (unit, GunnsFluidDistributedIf) outcome" where
  "processInputs s =
     (case flipModesOnInput s of
        Threw e s1 \<Rightarrow> Threw e s1
      | Undefined \<Rightarrow> Undefined
      | Returned _ s1 \<Rightarrow>
          (case processInputsDemand s1 of
             Threw e s2 \<Rightarrow> Threw e s2
           | Undefined \<Rightarrow> Undefined
           | Returned _ s2 \<Rightarrow>
               (case processInputsSupply s2 of
                  Threw e s3 \<Rightarrow> Threw e s3
                | Undefined \<Rightarrow> Undefined
                | Returned _ s3 \<Rightarrow>
                    (let s4 = s3\<lparr> mOutData :=
                                 (mOutData s3)\<lparr> mFrameCount := mFrameCount (mOutData s3) + 1 \<rparr> \<rparr>;
                         s5 = s4\<lparr> mLoopLatency :=
                                 int (mFrameCount (mOutData s4))
                                 - int (mFrameLoopback (mInData s4)) \<rparr>
                     in Returned ()
                          (s5\<lparr> mOutData :=
                                (mOutData s5)\<lparr> mFrameLoopback := mFrameCount (mInData s5) \<rparr> \<rparr>)))))"

subsection \<open>Building the outgoing payload\<close>

text \<open>
  \<^verbatim>\<open>outputCapacitance\<close>: the node's network capacitance, less what this link supplies
  in Demand mode, less the effective capacitance of every other interface link in Demand
  mode, limited to positive values.
\<close>

definition outputCapacitance :: "GunnsFluidDistributedIf \<Rightarrow> GunnsFluidDistributedIf" where
  "outputCapacitance s =
     (let capacitance = nNetworkCapacitance (mNode s) - mSuppliedCapacitance s;
          capacitance' =
            fold (\<lambda>other c.
                    let otherSuppliedCap = oSuppliedCapacitance other
                    in if otherSuppliedCap > DBL_EPSILON then
                         (let ourNetCapDp = nNetCapDeltaPotential (mNode s);
                              otherDp = ourNetCapDp (oNodeMap0 other)
                          in if otherDp > DBL_EPSILON then
                               (let ourDp = ourNetCapDp (mNodeMap0 s);
                                    ratio = otherDp / max ourDp DBL_EPSILON
                                in c - otherSuppliedCap * ratio)
                             else c)
                       else c)
                 (mOtherIfs s) capacitance
      in s\<lparr> mOutData := (mOutData s)\<lparr> mCapacitance := max 0 capacitance' \<rparr> \<rparr>)"

text \<open>
  \<^verbatim>\<open>outputFluid(fluid)\<close> returns the sum of all bulk and trace mole fractions and
  writes the energy and the mixture of the outgoing payload.
\<close>

definition outputFluid ::
  "PolyFluid \<Rightarrow> GunnsFluidDistributedIf \<Rightarrow> real \<times> GunnsFluidDistributedIf" where
  "outputFluid fluid s =
     (let fluidConfig = nFluidConfig (mNode s);
          s1 = s\<lparr> mOutData := (mOutData s)\<lparr> mEnergy :=
                  (if mUseEnthalpy s then getSpecificEnthalpy fluidConfig fluid
                   else pfTemperature fluid) \<rparr> \<rparr>;
          s2 = s1\<lparr> mTempMassFractions :=
                  writePrefix (mNTypes fluidConfig) (\<lambda>i. pfMassFractions fluid ! i)
                    (mTempMassFractions s1) \<rparr>;
          s3 = s2\<lparr> mTempMoleFractions :=
                  convertMassFractionToMoleFraction fluidConfig (mTempMassFractions s2) \<rparr>;
          tcFractions = (case pfTraceCompounds fluid of None \<Rightarrow> [] | Some tc \<Rightarrow> tc);
          nTc = length tcFractions;
          moleFractionSum =
            sumPrefix nTc tcFractions + sumPrefix (mNTypes fluidConfig) (mTempMoleFractions s3);
          s4 = s3\<lparr> mTempMoleFractions :=
                  writePrefix (mNTypes fluidConfig)
                    (\<lambda>i. mTempMoleFractions s3 ! i / moleFractionSum)
                    (mTempMoleFractions s3) \<rparr>;
          s5 = s4\<lparr> mTempTcMoleFractions :=
                  writePrefix nTc (\<lambda>i. tcFractions ! i / moleFractionSum)
                    (mTempTcMoleFractions s4) \<rparr>;
          s6 = s5\<lparr> mOutData := setMoleFractions (mTempMoleFractions s5) (mOutData s5) \<rparr>;
          s7 = s6\<lparr> mOutData := setTcMoleFractions (mTempTcMoleFractions s6) (mOutData s6) \<rparr>
      in (moleFractionSum, s7))"

text \<open>\<^verbatim>\<open>PolyFluid::getMoleFraction(i)\<close>, from the mass fractions the fluid holds.\<close>

definition getMoleFraction :: "PolyFluidConfigData \<Rightarrow> PolyFluid \<Rightarrow> nat \<Rightarrow> real" where
  "getMoleFraction fluidConfig fluid i =
     convertMassFractionToMoleFraction fluidConfig (pfMassFractions fluid) ! i"

definition checkNegativeFluidFractions :: "GunnsFluidDistributedIf \<Rightarrow> PolyFluid \<Rightarrow> bool" where
  "checkNegativeFluidFractions s fluid =
     (let fluidConfig = nFluidConfig (mNode s)
      in if list_ex (\<lambda>i. getMoleFraction fluidConfig fluid i < 0) [0..<mNTypes fluidConfig]
         then True
         else (case pfTraceCompounds fluid of
                 None \<Rightarrow> False
               | Some tc \<Rightarrow> list_ex (\<lambda>x. x < 0) tc))"

definition processOutputsSupply :: "GunnsFluidDistributedIf \<Rightarrow> GunnsFluidDistributedIf" where
  "processOutputsSupply s =
     (let s1 = outputCapacitance s;
          s2 = s1\<lparr> mOutData := (mOutData s1)\<lparr> mSource :=
                  nPotential (mNode s1) * UNIT_PER_KILO \<rparr> \<rparr>;
          s3 = snd (outputFluid (nContent (mNode s2)) s2)
      in s3\<lparr> mFluidState := nContent (mNode s3) \<rparr>)"

definition processOutputsDemand :: "GunnsFluidDistributedIf \<Rightarrow> GunnsFluidDistributedIf" where
  "processOutputsDemand s =
     (let s1 = outputCapacitance s;
          inflow = nInflow (mNode s1);
          useFluid =
            (if pfTemperature inflow > 0 then
               (if checkNegativeFluidFractions s1 inflow then nContent (mNode s1) else inflow)
             else nContent (mNode s1));
          (moleFractionSum, s2) = outputFluid useFluid s1
      in s2\<lparr> mOutData := (mOutData s2)\<lparr> mSource :=
              mFlux s2 * UNIT_PER_KILO * moleFractionSum \<rparr> \<rparr>)"

text \<open>
  \<^verbatim>\<open>processOutputs\<close>: the capacitance check runs in the Supply branch only, after the
  outgoing payload has been built.
\<close>

definition processOutputs :: "GunnsFluidDistributedIf \<Rightarrow> GunnsFluidDistributedIf" where
  "processOutputs s =
     (let s1 = (if mDemandMode (mOutData s) then processOutputsDemand s
                else flipModesOnCapacitance (processOutputsSupply s))
      in s1\<lparr> mFramesSinceFlip := mFramesSinceFlip s1 + 1 \<rparr>)"

subsection \<open>The contribution to the system of equations\<close>

text \<open>
  The expression \<^verbatim>\<open>1.0 / std::max(1.0/conductance + resistance, DBL_EPSILON)\<close> of
  \<^verbatim>\<open>step\<close>.  Where \<^verbatim>\<open>step\<close> evaluates it, the time step and the capacitances are
  positive and the gain is a limit plus a term that is not negative, so a conductance of
  zero is a positive zero: IEEE division makes \<^verbatim>\<open>1.0/conductance\<close> plus infinity, the
  maximum is plus infinity and the quotient is 0.  The division of \<^typ>\<open>real\<close> would
  give \<open>1 / 0 = 0\<close> and leave \<open>1 / resistance\<close> instead, so that case is written out.
\<close>

definition seriesConductance :: "real \<Rightarrow> real \<Rightarrow> real" where
  "seriesConductance conductance resistance =
     (if conductance = 0 then 0
      else 1 / max (1 / conductance + resistance) DBL_EPSILON)"

text \<open>
  \<^verbatim>\<open>step(dt)\<close>, first block: the effective conductivity.  In Demand mode the
  conductance mirrors the capacitance of the Supply network; in Supply mode it is zero.
  \<^verbatim>\<open>powf\<close> with an exponent between 1 and 100 is a power by a natural number, taken
  exactly: the rounding of its single-precision result is not modelled.
\<close>

definition stepConductivity :: "real \<Rightarrow> GunnsFluidDistributedIf \<Rightarrow> GunnsFluidDistributedIf" where
  "stepConductivity dt s =
     (if mDemandMode (mOutData s) \<and> dt > DBL_EPSILON then
        (let s2 =
           (if mCapacitance (mOutData s) > FLT_EPSILON
               \<and> mCapacitance (mInData s) > FLT_EPSILON then
              (let csOverCd = limitRange 1 (mCapacitance (mInData s) / mCapacitance (mOutData s))
                                (mModingCapacitanceRatio s);
                   exponent = limitRange 1 (mLoopLatency s) 100;
                   gainLimit = min 1 (mDemandFilterConstA s
                                      * mDemandFilterConstB s ^ nat exponent);
                   s3 = s\<lparr> mDemandFluxGain :=
                           gainLimit + (1 - gainLimit) * (csOverCd - 1) * 4 \<rparr>;
                   conductance = mDemandFluxGain s3 * mCapacitance (mInData s3) / dt
               in if mDemandOption s3 then s3\<lparr> mEffectiveConductivity := conductance \<rparr>
                  else s3\<lparr> mEffectiveConductivity :=
                         seriesConductance conductance (dt / mCapacitance (mOutData s3)) \<rparr>)
            else
              (let s3 = s\<lparr> mDemandFluxGain := 1 \<rparr>
               in s3\<lparr> mEffectiveConductivity :=
                      mDemandFluxGain s3 * mCapacitance (mInData s3) / dt \<rparr>))
         in if mMalfBlockageFlag s2
            then s2\<lparr> mEffectiveConductivity :=
                     mEffectiveConductivity s2 * (1 - mMalfBlockageValue s2) \<rparr>
            else s2)
      else s\<lparr> mEffectiveConductivity := 0 \<rparr>)"

text \<open>
  \<^verbatim>\<open>step(dt)\<close>: the conductivity, then the admittance matrix, the supplied
  capacitance, the source vector and the request for the node's network capacitance.
\<close>

definition step :: "real \<Rightarrow> GunnsFluidDistributedIf \<Rightarrow> GunnsFluidDistributedIf" where
  "step dt s =
     (let s1 = stepConductivity dt s;
          systemConductance = limitRange 0 (mEffectiveConductivity s1) (mConductanceLimit s1);
          s4 = (if \<bar>mAdmittanceMatrix s1 - systemConductance\<bar> > 0
                then s1\<lparr> mAdmittanceMatrix := systemConductance, mAdmittanceUpdate := True \<rparr>
                else s1);
          s5 = (if mDemandMode (mOutData s4)
                then s4\<lparr> mSuppliedCapacitance := mAdmittanceMatrix s4 * dt \<rparr>
                else s4\<lparr> mSuppliedCapacitance := 0 \<rparr>);
          s6 = s5\<lparr> mSourceVector :=
                  mSourcePressure s5 * mAdmittanceMatrix s5 + mDemandFlux s5 \<rparr>
      in s6\<lparr> mNode := (mNode s6)\<lparr> nNetworkCapacitanceRequest := mNetworkCapacitanceFlux \<rparr> \<rparr>)"

subsection \<open>A one-species link after initialisation\<close>

text \<open>
  The states the examples start from: a network of one species without trace compounds
  (mole and mass fractions coincide, the energy is the temperature), a node at standard
  conditions, and the link as \<^verbatim>\<open>initialize\<close> leaves it with the default configuration
  (moding capacitance ratio 1.25, filter constants 1.5 and 0.75), in Supply mode.
\<close>

definition exFluid :: PolyFluid where
  "exFluid = \<lparr> pfMass = 1, pfMassFractions = [1], pfPressure = 101325 / 1000,
               pfTemperature = 294261 / 1000, pfTraceCompounds = None \<rparr>"

definition exConfig :: PolyFluidConfigData where
  "exConfig = \<lparr> mNTypes = 1,
                convertMoleFractionToMassFraction = (\<lambda>x. x),
                convertMassFractionToMoleFraction = (\<lambda>x. x),
                computeTemperature = (\<lambda>f h. h),
                getSpecificEnthalpy = pfTemperature \<rparr>"

definition exNode :: GunnsFluidNode where
  "exNode = \<lparr> nPotential = 101325 / 1000, nVolume = 1, nContent = exFluid,
              nInflow = exFluid, nFluidConfig = exConfig, nNetworkCapacitance = 1,
              nNetCapDeltaPotential = (\<lambda>j. 0), nNetworkCapacitanceRequest = 0 \<rparr>"

definition exData :: GunnsFluidDistributedIfData where
  "exData = initializeData 1 0 False 0 0 newIfData"

definition exLink :: GunnsFluidDistributedIf where
  "exLink =
     \<lparr> mInData = exData, mOutData = exData,
       mIsPairMaster = False, mUseEnthalpy = False, mDemandOption = False,
       mCapacitorLink = \<lparr> mEditVolumeFlag = False, mEditVolume = 0 \<rparr>,
       mModingCapacitanceRatio = 5 / 4, mDemandFilterConstA = 3 / 2,
       mDemandFilterConstB = 3 / 4,
       mForceDemandMode = False, mForceSupplyMode = False,
       mInDataLastDemandMode = False, mFramesSinceFlip = 0, mSupplyVolume = 0,
       mEffectiveConductivity = 0, mSourcePressure = 0, mDemandFlux = 0,
       mLoopLatency = 0, mDemandFluxGain = 1, mSuppliedCapacitance = 0,
       mTempMassFractions = [0], mTempMoleFractions = [0], mTempTcMoleFractions = [],
       mOtherIfs = [], mFluidState = exFluid,
       mMalfBlockageFlag = False, mMalfBlockageValue = 0,
       mAdmittanceMatrix = 0, mAdmittanceUpdate = False, mSourceVector = 0,
       mConductanceLimit = 10 ^ 15, mFlux = 0, mInternalFluid = exFluid,
       mNode = exNode, mNodeMap0 = 0 \<rparr>"

text \<open>A payload as a peer publishes it: every field of the wire record.\<close>

definition payload ::
  "nat \<Rightarrow> nat \<Rightarrow> bool \<Rightarrow> real \<Rightarrow> real \<Rightarrow> real \<Rightarrow> real list \<Rightarrow> real list
     \<Rightarrow> GunnsFluidDistributedIfData \<Rightarrow> GunnsFluidDistributedIfData" where
  "payload frameCount frameLoopback demandMode capacitance source energy fractions tcFractions d =
     d\<lparr> mFrameCount := frameCount, mFrameLoopback := frameLoopback,
        mDemandMode := demandMode, mCapacitance := capacitance, mSource := source,
        mEnergy := energy, mMoleFractions := fractions, mTcMoleFractions := tcFractions \<rparr>"

subsection \<open>The spec's conductance law\<close>



text \<open>
  The example link in Demand mode, both capacitances 1, facing a valid Supply payload,
  with a measured loop latency.
\<close>

definition exDemand :: "int \<Rightarrow> GunnsFluidDistributedIf" where
  "exDemand latency =
     exLink\<lparr> mOutData := (mOutData exLink)\<lparr> mDemandMode := True, mCapacitance := 1 \<rparr>,
             mInData := payload 5 4 False 1 101325 300 [1] [] exData,
             mLoopLatency := latency \<rparr>"



text \<open>
  A payload of a link whose network has two species and whose interface is overridden to
  three: valid scalars, and a negative fraction in the third interface entry.
\<close>

definition exWidePayload :: GunnsFluidDistributedIfData where
  "exWidePayload =
     payload 1 0 False 1 0 300 [1 / 2, 1 / 2, - 1] [] (initializeData 2 0 True 3 0 newIfData)"

subsection \<open>Reading an outcome\<close>

definition raised :: "('r, 's) outcome \<Rightarrow> exception option" where
  "raised r = (case r of Threw e s \<Rightarrow> Some e | _ \<Rightarrow> None)"

definition leftState :: "('r, 's) outcome \<Rightarrow> 's option" where
  "leftState r = (case r of Returned x s \<Rightarrow> Some s | Threw e s \<Rightarrow> Some s | Undefined \<Rightarrow> None)"

text \<open>
  The sum \<open>inputFluid\<close> computes and tests: the incoming bulk mole fractions, copied
  into the temporary array of the local network by \<open>getMoleFractions\<close>, summed over the
  local species.
\<close>

definition incomingBulkSum :: "GunnsFluidDistributedIf \<Rightarrow> real" where
  "incomingBulkSum s =
     sumPrefix (mNTypes (nFluidConfig (mNode s)))
       (getMoleFractions (mInData s) (mTempMoleFractions s))"

subsection \<open>Example states of the mode arbiter\<close>

text \<open>
  Start-up: both sides in Supply mode with capacitance 1, this side the pair master,
  facing a valid Supply payload.
\<close>

definition exStartup :: GunnsFluidDistributedIf where
  "exStartup =
     exLink\<lparr> mIsPairMaster := True,
             mOutData := (mOutData exLink)\<lparr> mCapacitance := 1 \<rparr>,
             mInData := payload 1 0 False 1 101325 300 [1] [] exData \<rparr>"


text \<open>The fields a mode flip may write.\<close>

definition flipped :: "GunnsFluidDistributedIf \<Rightarrow> GunnsFluidDistributedIf \<Rightarrow> bool" where
  "flipped s s' \<longleftrightarrow>
     (\<exists>dm sv cl fr la.
        s' = s\<lparr> mOutData := (mOutData s)\<lparr> mDemandMode := dm \<rparr>, mSupplyVolume := sv,
                mCapacitorLink := cl, mFramesSinceFlip := fr,
                mInDataLastDemandMode := la \<rparr>)"

text \<open>The mode the link is in once \<open>flipModesOnInput\<close> has run.\<close>

definition modeAfterFlip :: "GunnsFluidDistributedIf \<Rightarrow> bool" where
  "modeAfterFlip s =
     (case flipModesOnInput s of
        Returned x s1 \<Rightarrow> mDemandMode (mOutData s1)
      | Threw e s1 \<Rightarrow> mDemandMode (mOutData s1)
      | Undefined \<Rightarrow> mDemandMode (mOutData s))"

subsection \<open>Example states of input processing\<close>

text \<open>
  The link in Supply mode, four frames published, facing a valid Demand payload that
  echoes frame 4: once with a bulk fraction of 0, once with a bulk fraction of
  \<open>10\<^sup>-\<^sup>1\<^sup>7\<close>, below \<open>DBL_EPSILON\<close>, and a demand of \<open>10\<^sup>2\<^sup>0\<close> mol/s.
\<close>

definition exZeroDemandIn :: GunnsFluidDistributedIf where
  "exZeroDemandIn =
     exLink\<lparr> mInDataLastDemandMode := True,
             mOutData := (mOutData exLink)\<lparr> mFrameCount := 4, mCapacitance := 1 \<rparr>,
             mInData := payload 5 4 True 1 3 300 [0] [] exData \<rparr>"

definition exTinyDemandIn :: GunnsFluidDistributedIf where
  "exTinyDemandIn =
     exLink\<lparr> mInDataLastDemandMode := True,
             mOutData := (mOutData exLink)\<lparr> mFrameCount := 4, mCapacitance := 1 \<rparr>,
             mInData := payload 5 4 True 1 (10 ^ 20) 300 [1 / 10 ^ 17] [] exData \<rparr>"

text \<open>The same link facing a valid Demand payload of pure first species, 3 mol/s.\<close>

definition exDemandIn :: GunnsFluidDistributedIf where
  "exDemandIn =
     exLink\<lparr> mInDataLastDemandMode := True,
             mOutData := (mOutData exLink)\<lparr> mFrameCount := 4, mCapacitance := 1 \<rparr>,
             mInData := payload 5 4 True 1 3 300 [1] [] exData \<rparr>"

text \<open>The link in Demand mode facing a valid Supply payload whose bulk fraction is 0.\<close>

definition exDemandZeroIn :: GunnsFluidDistributedIf where
  "exDemandZeroIn =
     (exDemand 1)\<lparr> mInData := payload 5 4 False 1 101325 300 [0] [] exData \<rparr>"

subsection \<open>Example states of output processing\<close>

text \<open>
  The link in Supply mode, five frames after its last flip at a loop latency of 1, on a
  node whose network capacitance is 10, facing a payload with capacitance 100; and the
  same link with the Supply force flag set.
\<close>

definition exCapFlip :: GunnsFluidDistributedIf where
  "exCapFlip =
     exLink\<lparr> mFramesSinceFlip := 5, mLoopLatency := 1,
             mInData := payload 5 4 True 100 0 300 [1] [] exData,
             mNode := exNode\<lparr> nNetworkCapacitance := 10 \<rparr> \<rparr>"

definition exForcedSupply :: GunnsFluidDistributedIf where
  "exForcedSupply = exCapFlip\<lparr> mForceSupplyMode := True \<rparr>"

subsection \<open>A tick of one side\<close>

text \<open>
  Modelled from the spec: the scheduler of the network, the solver, the other links and
  the transport between the two sides are not among the sources.  The spec (its section
  5) gives the order of a tick: read the inbound payload, arbitrate the mode and process
  the inputs, stamp the system of equations, solve and transport, process the outputs.
  What the collaborators do in a tick is an input here: the payload that arrived, the
  time step, what the solver and the other links make of the node between \<open>step\<close> and
  \<open>processOutputs\<close>, the flux through the link, and what the other interface links
  supply.
\<close>

record TickInput =
  tiInData   :: GunnsFluidDistributedIfData
  tiDt       :: real
  tiSolve    :: "GunnsFluidNode \<Rightarrow> GunnsFluidNode"
  tiFlux     :: real
  tiOtherIfs :: "OtherIf list"

definition receive :: "TickInput \<Rightarrow> GunnsFluidDistributedIf \<Rightarrow> GunnsFluidDistributedIf" where
  "receive ti s = s\<lparr> mInData := tiInData ti \<rparr>"

definition solved :: "TickInput \<Rightarrow> GunnsFluidDistributedIf \<Rightarrow> GunnsFluidDistributedIf" where
  "solved ti s = s\<lparr> mNode := tiSolve ti (mNode s), mFlux := tiFlux ti,
                    mOtherIfs := tiOtherIfs ti \<rparr>"

definition tick ::
  "TickInput \<Rightarrow> GunnsFluidDistributedIf \<Rightarrow> (unit, GunnsFluidDistributedIf) outcome" where
  "tick ti s =
     (case processInputs (receive ti s) of
        Returned x s1 \<Rightarrow> Returned () (processOutputs (solved ti (step (tiDt ti) s1)))
      | Threw e s1 \<Rightarrow> Threw e s1
      | Undefined \<Rightarrow> Undefined)"

fun ticks ::
  "TickInput list \<Rightarrow> GunnsFluidDistributedIf \<Rightarrow> (unit, GunnsFluidDistributedIf) outcome" where
  "ticks [] s = Returned () s"
| "ticks (ti # tis) s =
     (case tick ti s of
        Returned x s' \<Rightarrow> ticks tis s'
      | Threw e s' \<Rightarrow> Threw e s'
      | Undefined \<Rightarrow> Undefined)"

text \<open>
  The condition of the flip on capacitance, as \<open>processOutputs\<close> evaluates it on the
  state it is given.
\<close>

definition capacitanceFlipDue :: "GunnsFluidDistributedIf \<Rightarrow> bool" where
  "capacitanceFlipDue s \<longleftrightarrow>
     mFramesSinceFlip s > mLoopLatency s
     \<and> mCapacitance (mOutData (outputCapacitance s)) * mModingCapacitanceRatio s
         < mCapacitance (mInData s)"

text \<open>
  A neutral tick: input processing returns, keeps the mode and the node, leaves no
  demand flux, and leaves a source pressure of 0 in Supply mode and of the node's
  potential in Demand mode; \<open>step\<close> then stamps a source of 0 in Supply mode; output
  processing keeps a Demand side in Demand mode and, unless the flip on capacitance is
  due, keeps a Supply side in Supply mode, publishing the node's pressure in Pa.
\<close>

definition neutralTick :: "TickInput \<Rightarrow> GunnsFluidDistributedIf \<Rightarrow> bool" where
  "neutralTick ti s =
     (case processInputs (receive ti s) of
        Returned x s1 \<Rightarrow>
          mDemandMode (mOutData s1) = mDemandMode (mOutData s)
          \<and> mNode s1 = mNode s
          \<and> mDemandFlux s1 = 0
          \<and> mSourcePressure s1
              = (if mDemandMode (mOutData s) then nPotential (mNode s) else 0)
          \<and> (\<not> mDemandMode (mOutData s) \<longrightarrow> mSourceVector (step (tiDt ti) s1) = 0)
          \<and> (let s2 = solved ti (step (tiDt ti) s1);
                   s3 = processOutputs s2
               in (mDemandMode (mOutData s) \<longrightarrow> mDemandMode (mOutData s3))
                  \<and> (\<not> mDemandMode (mOutData s) \<and> \<not> capacitanceFlipDue s2 \<longrightarrow>
                       \<not> mDemandMode (mOutData s3)
                       \<and> mSource (mOutData s3) = nPotential (mNode s2) * UNIT_PER_KILO))
      | Threw e s1 \<Rightarrow> False
      | Undefined \<Rightarrow> False)"

text \<open>Every tick of a run is neutral and returns.\<close>

fun neutralRun :: "TickInput list \<Rightarrow> GunnsFluidDistributedIf \<Rightarrow> bool" where
  "neutralRun [] s = True"
| "neutralRun (ti # tis) s =
     (neutralTick ti s
      \<and> (case tick ti s of
            Returned x s' \<Rightarrow> neutralRun tis s'
          | Threw e s' \<Rightarrow> False
          | Undefined \<Rightarrow> False))"

text \<open>
  A tick on which nothing arrived: the inbound payload is as initialisation left it
  (frame count 0), the solver leaves the node alone, nothing flows.
\<close>

definition exSilentTick :: TickInput where
  "exSilentTick = \<lparr> tiInData = exData, tiDt = 1 / 10, tiSolve = (\<lambda>n. n), tiFlux = 0,
                    tiOtherIfs = [] \<rparr>"

text \<open>
  A tick on which a payload arrived that the validity check rejects, its energy being 0,
  and that advertises a capacitance of 100.
\<close>

definition exRejectedTick :: TickInput where
  "exRejectedTick = \<lparr> tiInData = payload 5 0 False 100 101325 0 [1] [] exData,
                       tiDt = 1 / 10, tiSolve = (\<lambda>n. n), tiFlux = 0, tiOtherIfs = [] \<rparr>"

section \<open>Properties\<close>

subsection \<open>The payload\<close>

lemma initializeData_wf: "data_wf (initializeData nFluids nTc ov nIfFluids nIfTc newIfData)"
  by (simp add: data_wf_def initializeData_def newIfData_def Let_def)

lemma payload_wf:
  "data_wf d \<Longrightarrow> length fr = mNumFluidIf d \<Longrightarrow> length tc = mNumTcIf d
     \<Longrightarrow> data_wf (payload fc fl dm c src e fr tc d)"
  by (simp add: data_wf_def payload_def)

lemma scanNegative_upt:
  "scanNegative a [m..<n] =
     (if \<exists>i. m \<le> i \<and> i < n \<and> i < length a \<and> a ! i < 0 then Some True
      else if n \<le> length a \<or> n \<le> m then Some False else None)"
proof (induction "n - m" arbitrary: m)
  case 0
  then show ?case by auto
next
  case (Suc k)
  then have mn: "m < n" and k: "k = n - Suc m" by auto
  have up: "[m..<n] = m # [Suc m..<n]" using mn by (simp add: upt_conv_Cons)
  show ?case
  proof (cases "m < length a")
    case False
    then show ?thesis using mn up by auto
  next
    case True
    show ?thesis
    proof (cases "a ! m < 0")
      case True
      then show ?thesis using \<open>m < length a\<close> mn up by auto
    next
      case False
      have "(\<exists>i. m \<le> i \<and> i < n \<and> i < length a \<and> a ! i < 0)
             = (\<exists>i. Suc m \<le> i \<and> i < n \<and> i < length a \<and> a ! i < 0)"
        using False by (metis Suc_leI le_neq_implies_less Suc_leD)
      then show ?thesis using Suc.hyps(1)[OF k] False True up mn by auto
    qed
  qed
qed

lemma scanNegative_Some_False:
  "scanNegative a [0..<n] = Some False \<longleftrightarrow> n \<le> length a \<and> (\<forall>i<n. 0 \<le> a ! i)"
proof
  assume "scanNegative a [0..<n] = Some False"
  then have a: "\<not> (\<exists>i. i < n \<and> i < length a \<and> a ! i < 0)" and b: "n \<le> length a"
    unfolding scanNegative_upt by (auto split: if_splits)
  show "n \<le> length a \<and> (\<forall>i<n. 0 \<le> a ! i)"
  proof (intro conjI allI impI)
    show "n \<le> length a" by (rule b)
  next
    fix i assume "i < n"
    then have "i < length a" using b by simp
    then show "0 \<le> a ! i" using a \<open>i < n\<close> by (meson not_less)
  qed
next
  assume h: "n \<le> length a \<and> (\<forall>i<n. 0 \<le> a ! i)"
  then have "\<not> (\<exists>i. 0 \<le> i \<and> i < n \<and> i < length a \<and> a ! i < 0)"
    by (meson not_less)
  then show "scanNegative a [0..<n] = Some False"
    unfolding scanNegative_upt using h by simp
qed

text \<open>
  What \<open>hasValidData\<close> decides when it accepts: the scalar conditions and the first
  \<open>mNumFluid\<close> and \<open>mNumTc\<close> entries of the two arrays, which must exist.
\<close>

lemma hasValidData_Some_True:
  "hasValidData d = Some True \<longleftrightarrow>
     1 \<le> mFrameCount d \<and> 0 < mEnergy d \<and> 0 \<le> mCapacitance d
     \<and> (mDemandMode d \<or> 0 \<le> mSource d)
     \<and> mNumFluid d \<le> length (mMoleFractions d)
     \<and> (\<forall>i < mNumFluid d. 0 \<le> mMoleFractions d ! i)
     \<and> mNumTc d \<le> length (mTcMoleFractions d)
     \<and> (\<forall>i < mNumTc d. 0 \<le> mTcMoleFractions d ! i)"
proof -
  have 1: "hasValidData d = Some True \<longleftrightarrow>
     \<not> (mFrameCount d < 1 \<or> mEnergy d \<le> 0 \<or> mCapacitance d < 0
         \<or> (mSource d < 0 \<and> \<not> mDemandMode d))
     \<and> scanNegative (mMoleFractions d) [0..<mNumFluid d] = Some False
     \<and> scanNegative (mTcMoleFractions d) [0..<mNumTc d] = Some False"
    unfolding hasValidData_def by (simp split: option.splits bool.splits)
  show ?thesis unfolding 1 scanNegative_Some_False by (simp add: not_less not_le Suc_le_eq disj_commute)
qed

text \<open>
  On a payload whose arrays have the network's sizes (no override of the interface
  widths), \<open>hasValidData\<close> answers the spec's validity predicate.
\<close>

lemma hasValidData_matching_sizes:
  assumes "length (mMoleFractions d) = mNumFluid d"
    and "length (mTcMoleFractions d) = mNumTc d"
  shows "hasValidData d = Some (validPayload d)"
proof -
  have a: "scanNegative xs [0..<length xs] = Some (\<not> list_all (\<lambda>x. 0 \<le> x) xs)"
    for xs :: "real list"
    unfolding scanNegative_upt by (auto simp add: list_all_length not_le)
  have b: "scanNegative (mMoleFractions d) [0..<mNumFluid d]
             = Some (\<not> list_all (\<lambda>x. 0 \<le> x) (mMoleFractions d))"
    using a [of "mMoleFractions d"] assms(1) by simp
  have c: "scanNegative (mTcMoleFractions d) [0..<mNumTc d]
             = Some (\<not> list_all (\<lambda>x. 0 \<le> x) (mTcMoleFractions d))"
    using a [of "mTcMoleFractions d"] assms(2) by simp
  show ?thesis
    unfolding hasValidData_def validPayload_def b c
    by (cases "list_all (\<lambda>x. 0 \<le> x) (mMoleFractions d)";
        cases "list_all (\<lambda>x. 0 \<le> x) (mTcMoleFractions d)")
       (auto simp add: not_less not_le)
qed

text \<open>
  Claim C2.  \<open>hasValidData\<close> is to hold exactly when the frame count is at least 1, the
  energy positive, the capacitance non-negative, the source non-negative outside Demand
  mode, and every bulk and trace entry the payload holds non-negative, also when the
  interface widths are overridden.  The code scans the arrays up to the network's sizes:
  with a network of two species and an interface of three, a payload whose third entry is
  \<open>- 1\<close> is accepted.
\<close>

theorem hasValidData_skips_interface_entries:
  "data_wf exWidePayload
   \<and> mNumFluid exWidePayload = 2 \<and> mNumFluidIf exWidePayload = 3
   \<and> mMoleFractions exWidePayload ! 2 = - 1
   \<and> hasValidData exWidePayload = Some True"
  by (simp add: exWidePayload_def payload_def initializeData_def newIfData_def
      data_wf_def hasValidData_def upt_conv_Cons Let_def)

subsection \<open>The conductance stamped by \<open>step\<close>\<close>







lemma exDemand_fields:
  "mDemandMode (mOutData (exDemand n))"
  "mCapacitance (mOutData (exDemand n)) = 1"
  "mCapacitance (mInData (exDemand n)) = 1"
  "mDemandFilterConstA (exDemand n) = 3 / 2"
  "mDemandFilterConstB (exDemand n) = 3 / 4"
  "mModingCapacitanceRatio (exDemand n) = 5 / 4"
  "mLoopLatency (exDemand n) = n"
  "\<not> mDemandOption (exDemand n)"
  "\<not> mMalfBlockageFlag (exDemand n)"
  by (simp_all add: exDemand_def exLink_def payload_def)

lemma epsilon_bounds: "DBL_EPSILON < 1 / 10" "FLT_EPSILON < 1" "0 < DBL_EPSILON"
  "DBL_EPSILON < 1 / 1000"
  by (simp_all add: DBL_EPSILON_def FLT_EPSILON_def)




text \<open>
  Claim C10.  Every \<open>step\<close> of a link in Supply mode sets the effective conductivity to
  0, stamps 0 on the diagonal of the admittance matrix, sets the supplied capacitance to
  0, and stamps the demand flux alone in the source vector, whatever the source pressure
  is; the mode and the demand flux are left as they were.
\<close>

theorem step_supply_invariant:
  assumes "\<not> mDemandMode (mOutData s)"
  shows "mEffectiveConductivity (step dt s) = 0
       \<and> mAdmittanceMatrix (step dt s) = 0
       \<and> mSuppliedCapacitance (step dt s) = 0
       \<and> mSourceVector (step dt s) = mDemandFlux s
       \<and> mDemandFlux (step dt s) = mDemandFlux s
       \<and> mOutData (step dt s) = mOutData s"
  using assms by (simp add: step_def stepConductivity_def Let_def limitRange_def)

theorem step_supply_invariant_witness:
  "\<not> mDemandMode (mOutData (exLink\<lparr> mSourcePressure := 7, mDemandFlux := - 3,
                                     mAdmittanceMatrix := 2 \<rparr>))
   \<and> mAdmittanceMatrix (step (1 / 10) (exLink\<lparr> mSourcePressure := 7, mDemandFlux := - 3,
                                               mAdmittanceMatrix := 2 \<rparr>)) = 0
   \<and> mSourceVector (step (1 / 10) (exLink\<lparr> mSourcePressure := 7, mDemandFlux := - 3,
                                           mAdmittanceMatrix := 2 \<rparr>)) = - 3"
proof -
  have m: "\<not> mDemandMode (mOutData (exLink\<lparr> mSourcePressure := 7, mDemandFlux := - 3,
                                     mAdmittanceMatrix := 2 \<rparr>))"
    by (simp add: exLink_def exData_def initializeData_def newIfData_def)
  show ?thesis using step_supply_invariant [OF m, of "1 / 10"] m by simp
qed

subsection \<open>Mode flips on the incoming payload\<close>

lemma exData_valid_payload:
  "0 < n \<Longrightarrow> hasValidData (payload n fl dm c src e [x] [] exData)
     = Some (0 < e \<and> 0 \<le> c \<and> (dm \<or> 0 \<le> src) \<and> 0 \<le> x)"
  by (auto simp add: hasValidData_def payload_def exData_def initializeData_def newIfData_def
      Let_def not_less not_le)

lemma exStartup_fields:
  "\<not> mForceDemandMode exStartup" "\<not> mForceSupplyMode exStartup"
  "\<not> mDemandMode (mOutData exStartup)" "\<not> mDemandMode (mInData exStartup)"
  "mCapacitance (mOutData exStartup) = 1" "mCapacitance (mInData exStartup) = 1"
  "mIsPairMaster exStartup" "nVolume (mNode exStartup) = 1"
  by (simp_all add: exStartup_def exLink_def exNode_def payload_def exData_def
      initializeData_def newIfData_def)

lemma exStartup_valid: "hasValidData (mInData exStartup) = Some True"
proof -
  have "mInData exStartup = payload 1 0 False 1 101325 300 [1] [] exData"
    by (simp add: exStartup_def)
  then show ?thesis by (simp add: exData_valid_payload)
qed

text \<open>
  Claim C3.  With neither force flag set, a valid incoming payload and both sides in
  Supply mode, \<open>flipModesOnInput\<close> returns, and the link is in Demand mode afterwards
  exactly when its outgoing capacitance is smaller than the incoming one, or they are
  equal and the link is the pair master; on that flip the node's volume is saved in
  \<open>mSupplyVolume\<close> and the capacitor is asked to edit its volume to 0 (and the frames
  since the last flip are reset).
\<close>

theorem flipModesOnInput_startup_race:
  assumes "\<not> mForceDemandMode s" and "\<not> mForceSupplyMode s"
    and "hasValidData (mInData s) = Some True"
    and "\<not> mDemandMode (mOutData s)" and "\<not> mDemandMode (mInData s)"
  shows "\<exists>s'. flipModesOnInput s = Returned () s'
          \<and> (mDemandMode (mOutData s') \<longleftrightarrow>
               mCapacitance (mOutData s) < mCapacitance (mInData s)
               \<or> (mCapacitance (mOutData s) = mCapacitance (mInData s) \<and> mIsPairMaster s))
          \<and> (mDemandMode (mOutData s') \<longrightarrow>
               mSupplyVolume s' = nVolume (mNode s)
               \<and> mEditVolumeFlag (mCapacitorLink s')
               \<and> mEditVolume (mCapacitorLink s') = 0
               \<and> mFramesSinceFlip s' = 0)"
  using assms
  by (auto simp add: flipModesOnInput_def flipToDemandMode_def editVolume_def Let_def)

theorem flipModesOnInput_startup_race_witness:
  "\<not> mForceDemandMode exStartup \<and> \<not> mForceSupplyMode exStartup
   \<and> hasValidData (mInData exStartup) = Some True
   \<and> \<not> mDemandMode (mOutData exStartup) \<and> \<not> mDemandMode (mInData exStartup)
   \<and> mCapacitance (mOutData exStartup) = mCapacitance (mInData exStartup)
   \<and> mIsPairMaster exStartup
   \<and> map_option
        (\<lambda>s'. (mDemandMode (mOutData s'), mSupplyVolume s',
               mEditVolumeFlag (mCapacitorLink s'), mEditVolume (mCapacitorLink s')))
        (leftState (flipModesOnInput exStartup))
      = Some (True, 1, True, 0)"
  using flipModesOnInput_startup_race [of exStartup]
  by (auto simp add: exStartup_fields exStartup_valid leftState_def)






subsection \<open>What input processing writes\<close>

lemma inputFluid_threw:
  "incomingBulkSum s < DBL_EPSILON \<Longrightarrow>
     inputFluid p f s =
       Threw TsOutOfBoundsException
         (s\<lparr> mTempMoleFractions := getMoleFractions (mInData s) (mTempMoleFractions s) \<rparr>)"
  by (simp add: inputFluid_def incomingBulkSum_def Let_def)

lemma inputFluid_returned:
  "\<not> incomingBulkSum s < DBL_EPSILON \<Longrightarrow>
     \<exists>f' t1 t2 t3.
       inputFluid p f s =
         Returned (incomingBulkSum s, f')
           (s\<lparr> mTempMoleFractions := t1, mTempMassFractions := t2,
                mTempTcMoleFractions := t3 \<rparr>)"
proof -
  assume a: "\<not> incomingBulkSum s < DBL_EPSILON"
  have *: "\<And>x. s\<lparr> mTempMoleFractions := a1, mTempMassFractions := a2 \<rparr>
          = s\<lparr> mTempMoleFractions := a1, mTempMassFractions := a2,
                mTempTcMoleFractions := mTempTcMoleFractions s \<rparr>" for a1 a2
    by simp
  show ?thesis
    using a
    apply (simp add: inputFluid_def incomingBulkSum_def Let_def split: option.splits)
    apply (intro conjI impI allI)
    apply (metis *)+
    done
qed

lemma incomingBulkSum_cong:
  "mInData s' = mInData s \<Longrightarrow> mNode s' = mNode s
     \<Longrightarrow> mTempMoleFractions s' = mTempMoleFractions s
     \<Longrightarrow> incomingBulkSum s' = incomingBulkSum s"
  by (simp add: incomingBulkSum_def)

lemma processInputsSupply_demand:
  "mDemandMode (mOutData s) \<Longrightarrow> processInputsSupply s = Returned () (s\<lparr> mDemandFlux := 0 \<rparr>)"
  by (simp add: processInputsSupply_def Let_def)

lemma processInputsSupply_idle:
  assumes "\<not> mDemandMode (mOutData s)" and "hasValidData (mInData s) = Some v"
    and "\<not> (v \<and> mDemandMode (mInData s))"
  shows "processInputsSupply s = Returned () (s\<lparr> mDemandFlux := 0, mSourcePressure := 0 \<rparr>)"
  using assms by (cases v) (simp_all add: processInputsSupply_def Let_def)

lemma processInputsSupply_threw:
  assumes "\<not> mDemandMode (mOutData s)" and "hasValidData (mInData s) = Some True"
    and "mDemandMode (mInData s)" and "incomingBulkSum s < DBL_EPSILON"
  shows "processInputsSupply s =
           Threw TsOutOfBoundsException
             (s\<lparr> mDemandFlux := 0, mSourcePressure := 0,
                  mTempMoleFractions := getMoleFractions (mInData s) (mTempMoleFractions s) \<rparr>)"
proof -
  let ?s1 = "s\<lparr> mDemandFlux := 0, mSourcePressure := 0 \<rparr>"
  have b: "incomingBulkSum ?s1 < DBL_EPSILON"
    using assms(4) by (simp add: incomingBulkSum_def)
  show ?thesis
    using assms(1-3) inputFluid_threw [OF b, of 1 "mInternalFluid ?s1"]
    by (simp add: processInputsSupply_def Let_def)
qed

lemma processInputsSupply_flux:
  assumes "\<not> mDemandMode (mOutData s)" and "hasValidData (mInData s) = Some True"
    and "mDemandMode (mInData s)" and "\<not> incomingBulkSum s < DBL_EPSILON"
  shows "\<exists>f' t1 t2 t3.
           processInputsSupply s =
             Returned ()
               (s\<lparr> mDemandFlux := - mSource (mInData s) * KILO_PER_UNIT * incomingBulkSum s,
                    mSourcePressure := 0, mInternalFluid := f',
                    mTempMoleFractions := t1, mTempMassFractions := t2,
                    mTempTcMoleFractions := t3 \<rparr>)"
proof -
  let ?s1 = "s\<lparr> mDemandFlux := 0, mSourcePressure := 0 \<rparr>"
  have b: "incomingBulkSum ?s1 = incomingBulkSum s"
    by (simp add: incomingBulkSum_def)
  then have nb: "\<not> incomingBulkSum ?s1 < DBL_EPSILON" using assms(4) by simp
  obtain f' t1 t2 t3 where r:
    "inputFluid 1 (mInternalFluid ?s1) ?s1 =
       Returned (incomingBulkSum ?s1, f')
         (?s1\<lparr> mTempMoleFractions := t1, mTempMassFractions := t2,
                mTempTcMoleFractions := t3 \<rparr>)"
    using inputFluid_returned [OF nb] by blast
  have "processInputsSupply s =
             Returned ()
               (s\<lparr> mDemandFlux := - mSource (mInData s) * KILO_PER_UNIT * incomingBulkSum s,
                    mSourcePressure := 0, mInternalFluid := f',
                    mTempMoleFractions := t1, mTempMassFractions := t2,
                    mTempTcMoleFractions := t3 \<rparr>)"
    using assms(1-3) r b by (simp add: processInputsSupply_def Let_def)
  then show ?thesis by blast
qed

lemma processInputsDemand_supply:
  "\<not> mDemandMode (mOutData s) \<Longrightarrow> processInputsDemand s = Returned () s"
  by (simp add: processInputsDemand_def)

lemma processInputsDemand_hold:
  assumes "mDemandMode (mOutData s)" and "hasValidData (mInData s) = Some v"
    and "\<not> (v \<and> \<not> mDemandMode (mInData s))"
  shows "processInputsDemand s = Returned () (s\<lparr> mSourcePressure := nPotential (mNode s) \<rparr>)"
  using assms by (cases v) (simp_all add: processInputsDemand_def Let_def)

lemma processInputsDemand_threw:
  assumes "mDemandMode (mOutData s)" and "hasValidData (mInData s) = Some True"
    and "\<not> mDemandMode (mInData s)" and "incomingBulkSum s < DBL_EPSILON"
  shows "processInputsDemand s =
           Threw TsOutOfBoundsException
             (s\<lparr> mSourcePressure := mSource (mInData s) * KILO_PER_UNIT,
                  mTempMoleFractions := getMoleFractions (mInData s) (mTempMoleFractions s) \<rparr>)"
proof -
  let ?s1 = "s\<lparr> mSourcePressure := mSource (mInData s) * KILO_PER_UNIT \<rparr>"
  have b: "incomingBulkSum ?s1 < DBL_EPSILON"
    using assms(4) by (simp add: incomingBulkSum_def)
  show ?thesis
    using assms(1-3) inputFluid_threw [OF b, of "mSourcePressure ?s1" "nContent (mNode ?s1)"]
    by (simp add: processInputsDemand_def Let_def)
qed

lemma processInputsDemand_ingest:
  assumes "mDemandMode (mOutData s)" and "hasValidData (mInData s) = Some True"
    and "\<not> mDemandMode (mInData s)" and "\<not> incomingBulkSum s < DBL_EPSILON"
  shows "\<exists>f' t1 t2 t3.
           processInputsDemand s =
             Returned ()
               (s\<lparr> mSourcePressure := mSource (mInData s) * KILO_PER_UNIT,
                    mNode := (mNode s)\<lparr> nContent := f' \<rparr>, mFluidState := f',
                    mTempMoleFractions := t1, mTempMassFractions := t2,
                    mTempTcMoleFractions := t3 \<rparr>)"
proof -
  let ?s1 = "s\<lparr> mSourcePressure := mSource (mInData s) * KILO_PER_UNIT \<rparr>"
  have b: "incomingBulkSum ?s1 = incomingBulkSum s"
    by (simp add: incomingBulkSum_def)
  then have nb: "\<not> incomingBulkSum ?s1 < DBL_EPSILON" using assms(4) by simp
  obtain f' t1 t2 t3 where r:
    "inputFluid (mSourcePressure ?s1) (nContent (mNode ?s1)) ?s1 =
       Returned (incomingBulkSum ?s1, f')
         (?s1\<lparr> mTempMoleFractions := t1, mTempMassFractions := t2,
                mTempTcMoleFractions := t3 \<rparr>)"
    using inputFluid_returned [OF nb] by blast
  have "processInputsDemand s =
             Returned ()
               (s\<lparr> mSourcePressure := mSource (mInData s) * KILO_PER_UNIT,
                    mNode := (mNode s)\<lparr> nContent := f' \<rparr>, mFluidState := f',
                    mTempMoleFractions := t1, mTempMassFractions := t2,
                    mTempTcMoleFractions := t3 \<rparr>)"
    using assms(1-3) r by (simp add: processInputsDemand_def Let_def)
  then show ?thesis by blast
qed

lemma flipped_refl: "flipped s s"
  unfolding flipped_def
  apply (rule exI [of _ "mDemandMode (mOutData s)"])
  apply (rule exI [of _ "mSupplyVolume s"])
  apply (rule exI [of _ "mCapacitorLink s"])
  apply (rule exI [of _ "mFramesSinceFlip s"])
  apply (rule exI [of _ "mInDataLastDemandMode s"])
  apply simp
  done

lemma flipped_flipToDemandMode: "flipped s (flipToDemandMode s)"
proof (cases "mForceSupplyMode s")
  case True
  then show ?thesis by (simp add: flipToDemandMode_def flipped_refl)
next
  case False
  show ?thesis
    unfolding flipped_def
    apply (rule exI [of _ True])
    apply (rule exI [of _ "nVolume (mNode s)"])
    apply (rule exI [of _ "editVolume True 0 (mCapacitorLink s)"])
    apply (rule exI [of _ 0])
    apply (rule exI [of _ "mInDataLastDemandMode s"])
    using False apply (simp add: flipToDemandMode_def)
    done
qed

lemma flipped_flipToSupplyMode: "flipped s (flipToSupplyMode s)"
proof (cases "mForceDemandMode s")
  case True
  then show ?thesis by (simp add: flipToSupplyMode_def flipped_refl)
next
  case False
  show ?thesis
    unfolding flipped_def
    apply (rule exI [of _ False])
    apply (rule exI [of _ 0])
    apply (rule exI [of _ "editVolume True (mSupplyVolume s) (mCapacitorLink s)"])
    apply (rule exI [of _ 0])
    apply (rule exI [of _ "mInDataLastDemandMode s"])
    using False apply (simp add: flipToSupplyMode_def)
    done
qed

lemma flipped_last: "flipped s s1 \<Longrightarrow> flipped s (s1\<lparr> mInDataLastDemandMode := la \<rparr>)"
  unfolding flipped_def by (clarsimp, (rule exI)+, rule refl)

lemma flipModesOnInput_form:
  assumes "hasValidData (mInData s) = Some v"
  shows "\<exists>s1. flipModesOnInput s = Returned () s1 \<and> flipped s s1"
  using assms
  by (cases v)
     (simp_all add: flipModesOnInput_def Let_def flipped_refl flipped_flipToDemandMode
        flipped_flipToSupplyMode flipped_last)

lemma flipped_fields:
  assumes "flipped s s'"
  shows "mInData s' = mInData s" and "mNode s' = mNode s"
    and "mTempMoleFractions s' = mTempMoleFractions s"
    and "mFrameCount (mOutData s') = mFrameCount (mOutData s)"
    and "mSource (mOutData s') = mSource (mOutData s)"
    and "mLoopLatency s' = mLoopLatency s"
    and "mDemandFlux s' = mDemandFlux s"
    and "mSourcePressure s' = mSourcePressure s"
    and "mInternalFluid s' = mInternalFluid s" and "mFluidState s' = mFluidState s"
    and "mForceDemandMode s' = mForceDemandMode s"
    and "mForceSupplyMode s' = mForceSupplyMode s"
    and "incomingBulkSum s' = incomingBulkSum s"
  using assms unfolding flipped_def by (auto simp: incomingBulkSum_def)

lemma processInputs_returned:
  assumes "flipModesOnInput s = Returned () s1" and "processInputsDemand s1 = Returned () s2"
    and "processInputsSupply s2 = Returned () s3"
  shows "processInputs s =
           Returned ()
             (s3\<lparr> mOutData := (mOutData s3)\<lparr> mFrameCount := mFrameCount (mOutData s3) + 1,
                                            mFrameLoopback := mFrameCount (mInData s3) \<rparr>,
                   mLoopLatency := int (mFrameCount (mOutData s3) + 1)
                                   - int (mFrameLoopback (mInData s3)) \<rparr>)"
  using assms by (simp add: processInputs_def Let_def)

lemma processInputs_threw_demand:
  assumes "flipModesOnInput s = Returned () s1" and "processInputsDemand s1 = Threw e s2"
  shows "processInputs s = Threw e s2"
  using assms by (simp add: processInputs_def)

lemma processInputs_threw_supply:
  assumes "flipModesOnInput s = Returned () s1" and "processInputsDemand s1 = Returned () s2"
    and "processInputsSupply s2 = Threw e s3"
  shows "processInputs s = Threw e s3"
  using assms by (simp add: processInputs_def)

lemma modeAfterFlip_eq:
  "flipModesOnInput s = Returned () s1 \<Longrightarrow> modeAfterFlip s = mDemandMode (mOutData s1)"
  by (simp add: modeAfterFlip_def)

text \<open>
  The outcome of \<open>processInputs\<close> on a payload whose validity check answers: it throws
  exactly when the payload is valid, its mode differs from the link's mode after the
  flips, and the incoming bulk fractions sum to less than \<open>DBL_EPSILON\<close>.
\<close>

lemma processInputs_throws:
  assumes hv: "hasValidData (mInData s) = Some True"
    and md: "modeAfterFlip s \<noteq> mDemandMode (mInData s)"
    and sm: "incomingBulkSum s < DBL_EPSILON"
  shows "\<exists>s'. processInputs s = Threw TsOutOfBoundsException s'
           \<and> mNode s' = mNode s \<and> mInternalFluid s' = mInternalFluid s
           \<and> mFluidState s' = mFluidState s
           \<and> mDemandMode (mOutData s') = modeAfterFlip s
           \<and> mFrameCount (mOutData s') = mFrameCount (mOutData s)
           \<and> mFrameLoopback (mOutData s') = mFrameLoopback (mOutData s)
           \<and> mLoopLatency s' = mLoopLatency s
           \<and> (\<not> modeAfterFlip s \<longrightarrow> mDemandFlux s' = 0)"
proof -
  obtain s1 where f: "flipModesOnInput s = Returned () s1" and fl: "flipped s s1"
    using flipModesOnInput_form [OF hv] by blast
  note ff = flipped_fields [OF fl]
  have hv1: "hasValidData (mInData s1) = Some True" using hv ff(1) by simp
  have sm1: "incomingBulkSum s1 < DBL_EPSILON" using sm ff(13) by simp
  have fo: "mFrameLoopback (mOutData s1) = mFrameLoopback (mOutData s)"
    using fl unfolding flipped_def by auto
  show ?thesis
  proof (cases "mDemandMode (mOutData s1)")
    case True
    then have nd: "\<not> mDemandMode (mInData s1)" using md ff(1) modeAfterFlip_eq [OF f] by simp
    note t = processInputsDemand_threw [OF True hv1 nd sm1]
    show ?thesis
      using processInputs_threw_demand [OF f t] True modeAfterFlip_eq [OF f] ff fo
      by simp
  next
    case False
    then have d: "mDemandMode (mInData s1)" using md ff(1) modeAfterFlip_eq [OF f] by simp
    note r = processInputsDemand_supply [OF False]
    note t = processInputsSupply_threw [OF False hv1 d sm1]
    show ?thesis
      using processInputs_threw_supply [OF f r t] False modeAfterFlip_eq [OF f] ff fo
      by simp
  qed
qed

lemma processInputs_returns:
  assumes hv: "hasValidData (mInData s) = Some v"
    and nt: "\<not> (v \<and> modeAfterFlip s \<noteq> mDemandMode (mInData s)
                \<and> incomingBulkSum s < DBL_EPSILON)"
  shows "\<exists>s'. processInputs s = Returned () s'
           \<and> mDemandMode (mOutData s') = modeAfterFlip s
           \<and> mFrameCount (mOutData s') = mFrameCount (mOutData s) + 1
           \<and> mFrameLoopback (mOutData s') = mFrameCount (mInData s)
           \<and> mLoopLatency s' = int (mFrameCount (mOutData s)) + 1
                                 - int (mFrameLoopback (mInData s))
           \<and> mInData s' = mInData s
           \<and> mDemandFlux s' =
               (if \<not> modeAfterFlip s \<and> v \<and> mDemandMode (mInData s)
                then - mSource (mInData s) * KILO_PER_UNIT * incomingBulkSum s else 0)
           \<and> mSourcePressure s' =
               (if modeAfterFlip s
                then (if v \<and> \<not> mDemandMode (mInData s)
                      then mSource (mInData s) * KILO_PER_UNIT else nPotential (mNode s))
                else 0)
           \<and> (\<not> (modeAfterFlip s \<and> v \<and> \<not> mDemandMode (mInData s)) \<longrightarrow> mNode s' = mNode s)
           \<and> nPotential (mNode s') = nPotential (mNode s)
           \<and> mForceDemandMode s' = mForceDemandMode s
           \<and> mForceSupplyMode s' = mForceSupplyMode s"
proof -
  obtain s1 where f: "flipModesOnInput s = Returned () s1" and fl: "flipped s s1"
    using flipModesOnInput_form [OF hv] by blast
  note ff = flipped_fields [OF fl]
  note m = modeAfterFlip_eq [OF f]
  have hv1: "hasValidData (mInData s1) = Some v" using hv ff(1) by simp
  show ?thesis
  proof (cases "mDemandMode (mOutData s1)")
    case True
    show ?thesis
    proof (cases "v \<and> \<not> mDemandMode (mInData s1)")
      case ing: True
      then have hvT: "hasValidData (mInData s1) = Some True" and nd: "\<not> mDemandMode (mInData s1)"
        using hv1 by simp_all
      have nb: "\<not> incomingBulkSum s1 < DBL_EPSILON"
        using nt ing True m ff(1) ff(13) by auto
      obtain f' t1 t2 t3 where d:
        "processInputsDemand s1 =
             Returned ()
               (s1\<lparr> mSourcePressure := mSource (mInData s1) * KILO_PER_UNIT,
                    mNode := (mNode s1)\<lparr> nContent := f' \<rparr>, mFluidState := f',
                    mTempMoleFractions := t1, mTempMassFractions := t2,
                    mTempTcMoleFractions := t3 \<rparr>)" (is "_ = Returned () ?s2")
        using processInputsDemand_ingest [OF True hvT nd nb] by blast
      have dm2: "mDemandMode (mOutData ?s2)" using True by simp
      note r = processInputs_returned [OF f d processInputsSupply_demand [OF dm2]]
      show ?thesis
        unfolding r m using True ing ff by simp
    next
      case hold: False
      note d = processInputsDemand_hold [OF True hv1 hold]
      have dm2: "mDemandMode (mOutData (s1\<lparr> mSourcePressure := nPotential (mNode s1) \<rparr>))"
        using True by simp
      note r = processInputs_returned [OF f d processInputsSupply_demand [OF dm2]]
      show ?thesis
        unfolding r m using True hold ff by auto
    qed
  next
    case False
    note d = processInputsDemand_supply [OF False]
    show ?thesis
    proof (cases "v \<and> mDemandMode (mInData s1)")
      case flux: True
      then have hvT: "hasValidData (mInData s1) = Some True" and dd: "mDemandMode (mInData s1)"
        using hv1 by simp_all
      have nb: "\<not> incomingBulkSum s1 < DBL_EPSILON"
        using nt flux False m ff(1) ff(13) by auto
      obtain f' t1 t2 t3 where p:
        "processInputsSupply s1 =
             Returned ()
               (s1\<lparr> mDemandFlux := - mSource (mInData s1) * KILO_PER_UNIT * incomingBulkSum s1,
                    mSourcePressure := 0, mInternalFluid := f',
                    mTempMoleFractions := t1, mTempMassFractions := t2,
                    mTempTcMoleFractions := t3 \<rparr>)"
        using processInputsSupply_flux [OF False hvT dd nb] by blast
      note r = processInputs_returned [OF f d p]
      show ?thesis
        unfolding r m using False flux ff by simp
    next
      case idle: False
      note p = processInputsSupply_idle [OF False hv1 idle]
      note r = processInputs_returned [OF f d p]
      show ?thesis
        unfolding r m using False idle ff by auto
    qed
  qed
qed

subsection \<open>The examples of input processing\<close>

lemma exData_incomingBulkSum:
  assumes "mInData s = payload n fl dm c src e [x] [] exData"
    and "mNode s = exNode" and "mTempMoleFractions s = [t]"
  shows "incomingBulkSum s = x"
  using assms
  by (simp add: incomingBulkSum_def sumPrefix_def getMoleFractions_def payload_def exData_def
      initializeData_def newIfData_def exNode_def exConfig_def Let_def)

lemma exLink_modeAfterFlip_demandIn:
  assumes "mInData s = payload n fl True c src e [x] [] exData"
    and "\<not> mForceDemandMode s" and "\<not> mForceSupplyMode s" and "\<not> mDemandMode (mOutData s)"
    and "hasValidData (mInData s) = Some v"
  shows "modeAfterFlip s = False"
  using assms
  by (cases v) (simp_all add: modeAfterFlip_def flipModesOnInput_def payload_def Let_def)

lemma exZeroDemandIn_facts:
  "hasValidData (mInData exZeroDemandIn) = Some True"
  "modeAfterFlip exZeroDemandIn = False"
  "incomingBulkSum exZeroDemandIn = 0"
  "mDemandMode (mInData exZeroDemandIn)"
  "\<not> mDemandMode (mOutData exZeroDemandIn)"
  "mFrameCount (mOutData exZeroDemandIn) = 4"
  "mLoopLatency exZeroDemandIn = 0"
proof -
  have i: "mInData exZeroDemandIn = payload 5 4 True 1 3 300 [0] [] exData"
    by (simp add: exZeroDemandIn_def)
  show v: "hasValidData (mInData exZeroDemandIn) = Some True"
    unfolding i by (simp add: exData_valid_payload)
  show "modeAfterFlip exZeroDemandIn = False"
    by (rule exLink_modeAfterFlip_demandIn [OF i _ _ _ v])
       (simp_all add: exZeroDemandIn_def exLink_def exData_def initializeData_def newIfData_def)
  show "incomingBulkSum exZeroDemandIn = 0"
    by (rule exData_incomingBulkSum [OF i, of 0])
       (simp_all add: exZeroDemandIn_def exLink_def)
  show "mDemandMode (mInData exZeroDemandIn)" unfolding i by (simp add: payload_def)
  show "\<not> mDemandMode (mOutData exZeroDemandIn)" "mFrameCount (mOutData exZeroDemandIn) = 4"
    "mLoopLatency exZeroDemandIn = 0"
    by (simp_all add: exZeroDemandIn_def exLink_def exData_def initializeData_def newIfData_def)
qed

lemma exTinyDemandIn_facts:
  "hasValidData (mInData exTinyDemandIn) = Some True"
  "modeAfterFlip exTinyDemandIn = False"
  "incomingBulkSum exTinyDemandIn = 1 / 10 ^ 17"
  "mDemandMode (mInData exTinyDemandIn)"
  "\<not> mDemandMode (mOutData exTinyDemandIn)"
  "mSource (mInData exTinyDemandIn) = 10 ^ 20"
proof -
  have i: "mInData exTinyDemandIn = payload 5 4 True 1 (10 ^ 20) 300 [1 / 10 ^ 17] [] exData"
    by (simp add: exTinyDemandIn_def)
  show v: "hasValidData (mInData exTinyDemandIn) = Some True"
    unfolding i by (simp add: exData_valid_payload)
  show "modeAfterFlip exTinyDemandIn = False"
    by (rule exLink_modeAfterFlip_demandIn [OF i _ _ _ v])
       (simp_all add: exTinyDemandIn_def exLink_def exData_def initializeData_def newIfData_def)
  show "incomingBulkSum exTinyDemandIn = 1 / 10 ^ 17"
    by (rule exData_incomingBulkSum [OF i, of 0])
       (simp_all add: exTinyDemandIn_def exLink_def)
  show "mDemandMode (mInData exTinyDemandIn)" "mSource (mInData exTinyDemandIn) = 10 ^ 20"
    unfolding i by (simp_all add: payload_def)
  show "\<not> mDemandMode (mOutData exTinyDemandIn)"
    by (simp_all add: exTinyDemandIn_def exLink_def exData_def initializeData_def newIfData_def)
qed

lemma exDemandIn_facts:
  "hasValidData (mInData exDemandIn) = Some True"
  "modeAfterFlip exDemandIn = False"
  "incomingBulkSum exDemandIn = 1"
  "mDemandMode (mInData exDemandIn)"
  "\<not> mDemandMode (mOutData exDemandIn)"
  "mSource (mInData exDemandIn) = 3"
  "mFrameCount (mOutData exDemandIn) = 4"
  "mFrameLoopback (mInData exDemandIn) = 4"
  "mFrameCount (mInData exDemandIn) = 5"
proof -
  have i: "mInData exDemandIn = payload 5 4 True 1 3 300 [1] [] exData"
    by (simp add: exDemandIn_def)
  show v: "hasValidData (mInData exDemandIn) = Some True"
    unfolding i by (simp add: exData_valid_payload)
  show "modeAfterFlip exDemandIn = False"
    by (rule exLink_modeAfterFlip_demandIn [OF i _ _ _ v])
       (simp_all add: exDemandIn_def exLink_def exData_def initializeData_def newIfData_def)
  show "incomingBulkSum exDemandIn = 1"
    by (rule exData_incomingBulkSum [OF i, of 0])
       (simp_all add: exDemandIn_def exLink_def)
  show "mDemandMode (mInData exDemandIn)" "mSource (mInData exDemandIn) = 3"
    "mFrameLoopback (mInData exDemandIn) = 4" "mFrameCount (mInData exDemandIn) = 5"
    unfolding i by (simp_all add: payload_def)
  show "\<not> mDemandMode (mOutData exDemandIn)" "mFrameCount (mOutData exDemandIn) = 4"
    by (simp_all add: exDemandIn_def exLink_def exData_def initializeData_def newIfData_def)
qed

lemma exDemandZeroIn_facts:
  "hasValidData (mInData exDemandZeroIn) = Some True"
  "modeAfterFlip exDemandZeroIn = True"
  "incomingBulkSum exDemandZeroIn = 0"
  "\<not> mDemandMode (mInData exDemandZeroIn)"
  "mDemandMode (mOutData exDemandZeroIn)"
proof -
  have i: "mInData exDemandZeroIn = payload 5 4 False 1 101325 300 [0] [] exData"
    by (simp add: exDemandZeroIn_def)
  show v: "hasValidData (mInData exDemandZeroIn) = Some True"
    unfolding i by (simp add: exData_valid_payload)
  show o: "mDemandMode (mOutData exDemandZeroIn)"
    by (simp add: exDemandZeroIn_def exDemand_def)
  show n: "\<not> mDemandMode (mInData exDemandZeroIn)" unfolding i by (simp add: payload_def)
  have ff: "\<not> mForceDemandMode exDemandZeroIn" "\<not> mForceSupplyMode exDemandZeroIn"
    by (simp_all add: exDemandZeroIn_def exDemand_def exLink_def)
  show "modeAfterFlip exDemandZeroIn = True"
    using v o n ff by (simp add: modeAfterFlip_def flipModesOnInput_def Let_def)
  show "incomingBulkSum exDemandZeroIn = 0"
    by (rule exData_incomingBulkSum [OF i, of 0])
       (simp_all add: exDemandZeroIn_def exDemand_def exLink_def)
qed

lemma zero_less_DBL_EPSILON: "0 < DBL_EPSILON" "1 / 10 ^ 17 < DBL_EPSILON" "\<not> 1 < DBL_EPSILON"
  by (simp_all add: DBL_EPSILON_def)

subsection \<open>The error of the incoming fluid\<close>

lemma flip_mInData:
  "mInData (flipToDemandMode s) = mInData s" "mInData (flipToSupplyMode s) = mInData s"
  by (simp_all add: flipToDemandMode_def flipToSupplyMode_def)

lemma processInputsDemand_Supply_undefined:
  assumes "hasValidData (mInData s) = None"
  shows "processInputsDemand s = Undefined
         \<or> (processInputsDemand s = Returned () s \<and> processInputsSupply s = Undefined)"
  using assms
  by (cases "mDemandMode (mOutData s)")
     (simp_all add: processInputsDemand_def processInputsSupply_def Let_def)

text \<open>
  When the validity check reads past the end of an array, so does \<open>processInputs\<close>:
  every path through it asks for the check.
\<close>

lemma processInputs_undefined:
  assumes "hasValidData (mInData s) = None"
  shows "processInputs s = Undefined"
proof -
  have "flipModesOnInput s = Undefined
        \<or> (\<exists>s1. flipModesOnInput s = Returned () s1 \<and> mInData s1 = mInData s)"
    using assms by (auto simp add: flipModesOnInput_def flip_mInData)
  then show ?thesis
  proof
    assume "flipModesOnInput s = Undefined"
    then show ?thesis by (simp add: processInputs_def)
  next
    assume "\<exists>s1. flipModesOnInput s = Returned () s1 \<and> mInData s1 = mInData s"
    then obtain s1 where f: "flipModesOnInput s = Returned () s1" and "mInData s1 = mInData s"
      by blast
    then have "hasValidData (mInData s1) = None" using assms by simp
    from processInputsDemand_Supply_undefined [OF this] show ?thesis
      using f by (auto simp add: processInputs_def)
  qed
qed

text \<open>
  Claim C8, as stated: the error is raised only when the link is in Demand mode.  The
  link in Supply mode, before and after the flips, raises it on a Demand payload that
  \<open>hasValidData\<close> accepts and whose bulk fraction is 0.
\<close>

theorem processInputs_supply_raises_counterexample:
  "\<not> mDemandMode (mOutData exZeroDemandIn) \<and> modeAfterFlip exZeroDemandIn = False
   \<and> raised (processInputs exZeroDemandIn) = Some TsOutOfBoundsException
   \<and> map_option (mDemandMode \<circ> mOutData) (leftState (processInputs exZeroDemandIn))
      = Some False"
proof -
  obtain s' where "processInputs exZeroDemandIn = Threw TsOutOfBoundsException s'"
    and "mDemandMode (mOutData s') = modeAfterFlip exZeroDemandIn"
    using processInputs_throws [of exZeroDemandIn]
    by (auto simp add: exZeroDemandIn_facts zero_less_DBL_EPSILON)
  then show ?thesis
    by (simp add: raised_def leftState_def exZeroDemandIn_facts)
qed

text \<open>
  Claim C8, amended: \<open>processInputs\<close> raises an error exactly when \<open>hasValidData\<close>
  returns true on the incoming payload, the payload's mode flag differs from the mode of
  the link after the flips (the link in Demand mode reads a Supply payload, or the link
  in Supply mode reads a Demand payload), and the incoming bulk mole fractions, mapped
  into the local species, sum to less than \<open>DBL_EPSILON\<close>.  The error is the
  out-of-bounds exception of \<open>inputFluid\<close>; the call that raises it leaves the node,
  the internal fluid and the link's fluid state as they were.
\<close>

theorem processInputs_raises_iff:
  "raised (processInputs s) =
     (if hasValidData (mInData s) = Some True
         \<and> modeAfterFlip s \<noteq> mDemandMode (mInData s)
         \<and> incomingBulkSum s < DBL_EPSILON
      then Some TsOutOfBoundsException else None)
   \<and> (\<forall>e s'. processInputs s = Threw e s' \<longrightarrow>
         e = TsOutOfBoundsException \<and> mNode s' = mNode s
         \<and> mInternalFluid s' = mInternalFluid s \<and> mFluidState s' = mFluidState s)"
proof (cases "hasValidData (mInData s)")
  case None
  then show ?thesis using processInputs_undefined [OF None] by (simp add: raised_def)
next
  case (Some v)
  show ?thesis
  proof (cases "v \<and> modeAfterFlip s \<noteq> mDemandMode (mInData s)
               \<and> incomingBulkSum s < DBL_EPSILON")
    case True
    then have hv: "hasValidData (mInData s) = Some True" using Some by simp
    obtain s' where t: "processInputs s = Threw TsOutOfBoundsException s'"
      and "mNode s' = mNode s" and "mInternalFluid s' = mInternalFluid s"
      and "mFluidState s' = mFluidState s"
      using processInputs_throws [OF hv] True by blast
    then show ?thesis using True hv by (simp add: raised_def)
  next
    case False
    obtain s' where "processInputs s = Returned () s'"
      using processInputs_returns [OF Some False] by blast
    then show ?thesis using False Some by (auto simp add: raised_def)
  qed
qed

theorem processInputs_raises_iff_witness:
  "hasValidData (mInData exDemandZeroIn) = Some True
   \<and> mDemandMode (mOutData exDemandZeroIn) \<and> \<not> mDemandMode (mInData exDemandZeroIn)
   \<and> incomingBulkSum exDemandZeroIn = 0
   \<and> raised (processInputs exDemandZeroIn) = Some TsOutOfBoundsException
   \<and> map_option mNode (leftState (processInputs exDemandZeroIn)) = Some (mNode exDemandZeroIn)
   \<and> hasValidData (mInData exDemandIn) = Some True
   \<and> incomingBulkSum exDemandIn = 1
   \<and> raised (processInputs exDemandIn) = None"
proof -
  note a = processInputs_raises_iff [of exDemandZeroIn]
  note b = processInputs_raises_iff [of exDemandIn]
  have r: "raised (processInputs exDemandZeroIn) = Some TsOutOfBoundsException"
    using a by (simp add: exDemandZeroIn_facts zero_less_DBL_EPSILON)
  then obtain s' where t: "processInputs exDemandZeroIn = Threw TsOutOfBoundsException s'"
    by (auto simp add: raised_def split: outcome.splits)
  have "mNode s' = mNode exDemandZeroIn"
    using a t by (simp add: exDemandZeroIn_facts)
  then show ?thesis
    using r t b by (simp add: exDemandZeroIn_facts exDemandIn_facts zero_less_DBL_EPSILON
        leftState_def)
qed

subsection \<open>Frame counters and loop latency\<close>

lemma raised_Some: "raised r = Some e \<Longrightarrow> \<exists>s'. r = Threw e s'"
  by (auto simp add: raised_def split: outcome.splits)

text \<open>
  Claim C9, as stated: on every tick \<open>processInputs\<close> increments the outgoing frame
  count.  On a tick that raises the error of the incoming fluid it does not: the frame
  count stays at 4 and the loop latency at 0.
\<close>

theorem processInputs_counters_counterexample:
  "mFrameCount (mOutData exZeroDemandIn) = 4 \<and> mLoopLatency exZeroDemandIn = 0
   \<and> raised (processInputs exZeroDemandIn) = Some TsOutOfBoundsException
   \<and> map_option (mFrameCount \<circ> mOutData) (leftState (processInputs exZeroDemandIn))
      = Some 4
   \<and> map_option mLoopLatency (leftState (processInputs exZeroDemandIn)) = Some 0"
proof -
  obtain s' where "processInputs exZeroDemandIn = Threw TsOutOfBoundsException s'"
    and "mFrameCount (mOutData s') = mFrameCount (mOutData exZeroDemandIn)"
    and "mLoopLatency s' = mLoopLatency exZeroDemandIn"
    using processInputs_throws [of exZeroDemandIn]
    by (auto simp add: exZeroDemandIn_facts zero_less_DBL_EPSILON)
  then show ?thesis
    by (simp add: raised_def leftState_def exZeroDemandIn_facts)
qed

text \<open>
  Claim C9, amended: when the validity check of the incoming payload answers, a call of
  \<open>processInputs\<close> that raises no error returns with the outgoing frame count
  incremented by exactly 1, the loop latency set to that new frame count minus the
  incoming loopback count, and the outgoing loopback count set to the incoming frame
  count; so if the peer echoes the frame count published on the tick before, the loop
  latency is 1.  A call that raises the error of the incoming fluid leaves the frame
  count and the loop latency as they were.
\<close>

theorem processInputs_frame_counters:
  assumes "hasValidData (mInData s) = Some v"
  shows "(raised (processInputs s) = None \<longrightarrow>
            (\<exists>s'. processInputs s = Returned () s'
               \<and> mFrameCount (mOutData s') = mFrameCount (mOutData s) + 1
               \<and> mLoopLatency s' = int (mFrameCount (mOutData s'))
                                     - int (mFrameLoopback (mInData s))
               \<and> mFrameLoopback (mOutData s') = mFrameCount (mInData s)
               \<and> (mFrameLoopback (mInData s) = mFrameCount (mOutData s)
                    \<longrightarrow> mLoopLatency s' = 1)))
       \<and> (raised (processInputs s) \<noteq> None \<longrightarrow>
            (\<exists>e s'. processInputs s = Threw e s'
               \<and> mFrameCount (mOutData s') = mFrameCount (mOutData s)
               \<and> mLoopLatency s' = mLoopLatency s))"
proof (cases "v \<and> modeAfterFlip s \<noteq> mDemandMode (mInData s)
               \<and> incomingBulkSum s < DBL_EPSILON")
  case True
  then have hv: "hasValidData (mInData s) = Some True" using assms by simp
  obtain s' where t: "processInputs s = Threw TsOutOfBoundsException s'"
    and "mFrameCount (mOutData s') = mFrameCount (mOutData s)"
    and "mLoopLatency s' = mLoopLatency s"
    using processInputs_throws [OF hv] True by blast
  then show ?thesis by (simp add: raised_def)
next
  case False
  obtain s' where "processInputs s = Returned () s'"
    and "mFrameCount (mOutData s') = mFrameCount (mOutData s) + 1"
    and "mFrameLoopback (mOutData s') = mFrameCount (mInData s)"
    and "mLoopLatency s' = int (mFrameCount (mOutData s)) + 1
                                 - int (mFrameLoopback (mInData s))"
    using processInputs_returns [OF assms False] by blast
  then show ?thesis by (simp add: raised_def)
qed

theorem processInputs_frame_counters_witness:
  "hasValidData (mInData exDemandIn) = Some True
   \<and> raised (processInputs exDemandIn) = None
   \<and> mFrameCount (mOutData exDemandIn) = 4
   \<and> mFrameLoopback (mInData exDemandIn) = mFrameCount (mOutData exDemandIn)
   \<and> map_option (\<lambda>s'. (mFrameCount (mOutData s'), mLoopLatency s', mFrameLoopback (mOutData s')))
        (leftState (processInputs exDemandIn))
      = Some (5, 1, 5)"
proof -
  have r: "raised (processInputs exDemandIn) = None"
    using processInputs_returns [of exDemandIn True]
    by (auto simp add: exDemandIn_facts zero_less_DBL_EPSILON raised_def)
  show ?thesis
    using processInputs_frame_counters [of exDemandIn True] r
    by (auto simp add: exDemandIn_facts leftState_def)
qed

subsection \<open>The demand flux in Supply mode\<close>

lemma step_demandFlux: "mDemandFlux (step dt s) = mDemandFlux s"
  by (simp add: step_def stepConductivity_def Let_def)

lemma step_supply_sourceVector:
  "\<not> mDemandMode (mOutData s) \<Longrightarrow> mSourceVector (step dt s) = mDemandFlux s"
  by (simp add: step_def stepConductivity_def Let_def limitRange_def)

text \<open>
  On a link whose arrays have the sizes \<^verbatim>\<open>initialize\<close> gives them, the sum
  \<open>inputFluid\<close> computes is the sum of the incoming bulk fractions over the species the
  interface and the local network have in common.
\<close>

lemma incomingBulkSum_common:
  assumes wf: "data_wf (mInData s)"
    and n: "mNumFluid (mInData s) = mNTypes (nFluidConfig (mNode s))"
    and l: "length (mTempMoleFractions s) = mNTypes (nFluidConfig (mNode s))"
  shows "incomingBulkSum s
           = sum_list (take (mNumFluidCommon (mInData s)) (mMoleFractions (mInData s)))"
proof -
  let ?d = "mInData s" and ?n = "mNTypes (nFluidConfig (mNode s))"
  let ?c = "mNumFluidCommon ?d" and ?m = "mMoleFractions ?d"
  have c: "?c \<le> ?n" "?c \<le> length ?m"
    using wf n by (simp_all add: data_wf_def)
  have "incomingBulkSum s = (\<Sum>i\<leftarrow>[0..<?n]. if i < ?c then ?m ! i else 0)"
    unfolding incomingBulkSum_def sumPrefix_def getMoleFractions_def
    using l n by (intro arg_cong [where f = sum_list] map_cong) auto
  also have "\<dots> = (\<Sum>i = 0..<?n. if i < ?c then ?m ! i else 0)"
    by (simp add: interv_sum_list_conv_sum_set_nat)
  also have "\<dots> = (\<Sum>i = 0..<?c. ?m ! i)"
  proof -
    have "{0..<?n} \<inter> {i. i < ?c} = {0..<?c}" using c(1) by auto
    then show ?thesis by (simp add: sum.If_cases)
  qed
  also have "\<dots> = sum_list (take ?c ?m)"
    using c(2) by (simp add: sum_list_sum_nth min_absorb2)
  finally show ?thesis .
qed

text \<open>
  Claim C6, as stated: in Supply mode, whenever the incoming payload is valid and in
  Demand mode, the stamped flow source is minus the incoming source times \<open>1/1000\<close> times
  the incoming bulk sum.  With a bulk sum of \<open>10\<^sup>-\<^sup>1\<^sup>7\<close> and a demand of \<open>10\<^sup>2\<^sup>0\<close> that
  value is \<open>- 1\<close>, while \<open>processInputs\<close> raises the error of the incoming fluid and leaves
  a demand flux of 0.
\<close>

theorem processInputs_flux_counterexample:
  "\<not> mDemandMode (mOutData exTinyDemandIn) \<and> modeAfterFlip exTinyDemandIn = False
   \<and> hasValidData (mInData exTinyDemandIn) = Some True
   \<and> mDemandMode (mInData exTinyDemandIn)
   \<and> - mSource (mInData exTinyDemandIn) * KILO_PER_UNIT * incomingBulkSum exTinyDemandIn = - 1
   \<and> raised (processInputs exTinyDemandIn) = Some TsOutOfBoundsException
   \<and> map_option mDemandFlux (leftState (processInputs exTinyDemandIn)) = Some 0"
proof -
  have md: "modeAfterFlip exTinyDemandIn \<noteq> mDemandMode (mInData exTinyDemandIn)"
    by (simp add: exTinyDemandIn_facts)
  have sm: "incomingBulkSum exTinyDemandIn < DBL_EPSILON"
    by (simp add: exTinyDemandIn_facts DBL_EPSILON_def)
  obtain s' where "processInputs exTinyDemandIn = Threw TsOutOfBoundsException s'"
    and "mDemandFlux s' = 0"
    using processInputs_throws [OF exTinyDemandIn_facts(1) md sm]
    by (auto simp add: exTinyDemandIn_facts)
  then show ?thesis
    by (simp add: raised_def leftState_def exTinyDemandIn_facts KILO_PER_UNIT_def)
qed

text \<open>
  Claim C6, amended: when \<open>hasValidData\<close> answers on the incoming payload (it does not
  read past the payload's arrays) and the error of the incoming fluid is not raised
  (\<open>hasValidData\<close> returns false, or the payload's mode is the link's mode after the
  flips, or the incoming bulk sum is at least \<open>DBL_EPSILON\<close>), \<open>processInputs\<close>
  returns and leaves a demand flux of minus the incoming source times \<open>KILO_PER_UNIT\<close>
  times the incoming bulk sum when the link is in Supply mode, \<open>hasValidData\<close> returns
  true and the payload is in Demand mode, and of 0 in every other case; \<open>step\<close> keeps
  that demand flux and, in Supply mode, stamps exactly it in the source vector.  On a
  link with the sizes of \<^verbatim>\<open>initialize\<close> the incoming bulk sum is the sum of the incoming
  bulk fractions over the species common to the interface and the local network.
\<close>

theorem processInputs_demand_flux:
  assumes "hasValidData (mInData s) = Some v"
    and "\<not> (v \<and> modeAfterFlip s \<noteq> mDemandMode (mInData s)
            \<and> incomingBulkSum s < DBL_EPSILON)"
  shows "\<exists>s'. processInputs s = Returned () s'
           \<and> mDemandMode (mOutData s') = modeAfterFlip s
           \<and> mDemandFlux s' =
               (if \<not> modeAfterFlip s \<and> v \<and> mDemandMode (mInData s)
                then - mSource (mInData s) * KILO_PER_UNIT * incomingBulkSum s else 0)
           \<and> mDemandFlux (step dt s') = mDemandFlux s'
           \<and> (\<not> modeAfterFlip s \<longrightarrow> mSourceVector (step dt s') = mDemandFlux s')
           \<and> (data_wf (mInData s)
                \<and> mNumFluid (mInData s) = mNTypes (nFluidConfig (mNode s))
                \<and> length (mTempMoleFractions s) = mNTypes (nFluidConfig (mNode s))
               \<longrightarrow> incomingBulkSum s
                     = sum_list (take (mNumFluidCommon (mInData s))
                                      (mMoleFractions (mInData s))))"
proof -
  obtain s' where r: "processInputs s = Returned () s'"
    and m: "mDemandMode (mOutData s') = modeAfterFlip s"
    and f: "mDemandFlux s' =
               (if \<not> modeAfterFlip s \<and> v \<and> mDemandMode (mInData s)
                then - mSource (mInData s) * KILO_PER_UNIT * incomingBulkSum s else 0)"
    using processInputs_returns [OF assms] by blast
  have sv: "\<not> modeAfterFlip s \<longrightarrow> mSourceVector (step dt s') = mDemandFlux s'"
    using m step_supply_sourceVector [of s' dt] by simp
  show ?thesis
    using r m f sv step_demandFlux [of dt s'] incomingBulkSum_common [of s] by blast
qed

theorem processInputs_demand_flux_witness:
  "hasValidData (mInData exDemandIn) = Some True
   \<and> modeAfterFlip exDemandIn = False \<and> mDemandMode (mInData exDemandIn)
   \<and> mSource (mInData exDemandIn) = 3 \<and> incomingBulkSum exDemandIn = 1
   \<and> map_option (\<lambda>s'. (mDemandMode (mOutData s'), mDemandFlux s',
                        mSourceVector (step (1 / 10) s')))
        (leftState (processInputs exDemandIn))
      = Some (False, - 3 / 1000, - 3 / 1000)"
  using processInputs_demand_flux [of exDemandIn True "1 / 10"]
  by (auto simp add: exDemandIn_facts zero_less_DBL_EPSILON leftState_def KILO_PER_UNIT_def)

subsection \<open>What output processing writes\<close>

lemmas output_defs =
  outputFluid_def outputCapacitance_def setMoleFractions_def setTcMoleFractions_def Let_def

lemma processOutputsSupply_mode:
  "mDemandMode (mOutData (processOutputsSupply s)) = mDemandMode (mOutData s)"
  by (simp add: processOutputsSupply_def output_defs)

lemma processOutputsSupply_capacitance:
  "mCapacitance (mOutData (processOutputsSupply s)) = mCapacitance (mOutData (outputCapacitance s))"
  by (simp add: processOutputsSupply_def output_defs)

lemma processOutputsSupply_source:
  "mSource (mOutData (processOutputsSupply s)) = nPotential (mNode s) * UNIT_PER_KILO"
  by (simp add: processOutputsSupply_def output_defs)

lemma processOutputsSupply_kept:
  "mInData (processOutputsSupply s) = mInData s"
  "mFramesSinceFlip (processOutputsSupply s) = mFramesSinceFlip s"
  "mLoopLatency (processOutputsSupply s) = mLoopLatency s"
  "mModingCapacitanceRatio (processOutputsSupply s) = mModingCapacitanceRatio s"
  "mForceSupplyMode (processOutputsSupply s) = mForceSupplyMode s"
  "mForceDemandMode (processOutputsSupply s) = mForceDemandMode s"
  "mNode (processOutputsSupply s) = mNode s"
  "mSupplyVolume (processOutputsSupply s) = mSupplyVolume s"
  "mCapacitorLink (processOutputsSupply s) = mCapacitorLink s"
  by (simp_all add: processOutputsSupply_def output_defs)

lemma processOutputsDemand_kept:
  "mDemandMode (mOutData (processOutputsDemand s)) = mDemandMode (mOutData s)"
  "mForceSupplyMode (processOutputsDemand s) = mForceSupplyMode s"
  "mForceDemandMode (processOutputsDemand s) = mForceDemandMode s"
  "mNode (processOutputsDemand s) = mNode s"
  by (simp_all add: processOutputsDemand_def output_defs split_def)

subsection \<open>The flip on capacitance\<close>

lemma processOutputs_supply_mode:
  assumes "\<not> mDemandMode (mOutData s)"
  shows "mDemandMode (mOutData (processOutputs s)) \<longleftrightarrow>
           \<not> mForceSupplyMode s \<and> mFramesSinceFlip s > mLoopLatency s
           \<and> mCapacitance (mOutData (outputCapacitance s)) * mModingCapacitanceRatio s
               < mCapacitance (mInData s)"
  using assms
  by (simp add: processOutputs_def flipModesOnCapacitance_def flipToDemandMode_def Let_def
      processOutputsSupply_mode processOutputsSupply_capacitance processOutputsSupply_kept)

lemma processOutputs_demand_mode:
  "mDemandMode (mOutData s) \<Longrightarrow> mDemandMode (mOutData (processOutputs s))"
  by (simp add: processOutputs_def Let_def processOutputsDemand_kept)

lemma processOutputs_flip_effects:
  assumes "\<not> mDemandMode (mOutData s)" and "mDemandMode (mOutData (processOutputs s))"
  shows "mSupplyVolume (processOutputs s) = nVolume (mNode s)"
    and "mEditVolumeFlag (mCapacitorLink (processOutputs s))"
    and "mEditVolume (mCapacitorLink (processOutputs s)) = 0"
    and "mSource (mOutData (processOutputs s)) = 0"
    and "mFramesSinceFlip (processOutputs s) = 1"
  using assms
  by (simp_all add: processOutputs_def flipModesOnCapacitance_def flipToDemandMode_def Let_def
      editVolume_def
      processOutputsSupply_mode processOutputsSupply_capacitance processOutputsSupply_kept
      split: if_splits)

lemma processOutputs_supply_stays:
  assumes "\<not> mDemandMode (mOutData s)"
    and "\<not> (mFramesSinceFlip s > mLoopLatency s
           \<and> mCapacitance (mOutData (outputCapacitance s)) * mModingCapacitanceRatio s
               < mCapacitance (mInData s))"
  shows "\<not> mDemandMode (mOutData (processOutputs s))"
    and "mSource (mOutData (processOutputs s)) = nPotential (mNode s) * UNIT_PER_KILO"
    and "mFramesSinceFlip (processOutputs s) = mFramesSinceFlip s + 1"
  using assms
  by (auto simp add: processOutputs_def flipModesOnCapacitance_def Let_def
      processOutputsSupply_mode processOutputsSupply_capacitance processOutputsSupply_kept
      processOutputsSupply_source)

lemma processOutputs_kept:
  "mForceSupplyMode (processOutputs s) = mForceSupplyMode s"
  "mForceDemandMode (processOutputs s) = mForceDemandMode s"
  "mNode (processOutputs s) = mNode s"
  by (simp_all add: processOutputs_def flipModesOnCapacitance_def flipToDemandMode_def Let_def
      processOutputsSupply_kept processOutputsDemand_kept)

lemma exCapFlip_facts:
  "\<not> mDemandMode (mOutData exCapFlip)" "\<not> mForceSupplyMode exCapFlip"
  "mFramesSinceFlip exCapFlip = 5" "mLoopLatency exCapFlip = 1"
  "mModingCapacitanceRatio exCapFlip = 5 / 4"
  "mCapacitance (mInData exCapFlip) = 100"
  "mCapacitance (mOutData (outputCapacitance exCapFlip)) = 10"
  "nVolume (mNode exCapFlip) = 1"
  by (simp_all add: exCapFlip_def exLink_def exData_def exNode_def initializeData_def
      newIfData_def payload_def outputCapacitance_def Let_def)

lemma exForcedSupply_facts:
  "\<not> mDemandMode (mOutData exForcedSupply)" "mForceSupplyMode exForcedSupply"
  "mFramesSinceFlip exForcedSupply = 5" "mLoopLatency exForcedSupply = 1"
  "mModingCapacitanceRatio exForcedSupply = 5 / 4"
  "mCapacitance (mInData exForcedSupply) = 100"
  "mCapacitance (mOutData (outputCapacitance exForcedSupply)) = 10"
  by (simp_all add: exForcedSupply_def exCapFlip_def exLink_def exData_def exNode_def
      initializeData_def newIfData_def payload_def outputCapacitance_def Let_def)

text \<open>
  Claim C4, as stated: in Supply mode the link flips to Demand mode exactly when the
  frames since the last flip exceed the loop latency and the outgoing capacitance times
  the moding ratio is less than the incoming capacitance.  With the Supply force flag set
  the condition holds (5 frames against a latency of 1, \<open>10 \<times> 1.25 < 100\<close>) and the link
  stays in Supply mode.
\<close>

theorem processOutputs_forced_supply_counterexample:
  "\<not> mDemandMode (mOutData exForcedSupply)
   \<and> mLoopLatency exForcedSupply < mFramesSinceFlip exForcedSupply
   \<and> mCapacitance (mOutData (outputCapacitance exForcedSupply))
       * mModingCapacitanceRatio exForcedSupply
      < mCapacitance (mInData exForcedSupply)
   \<and> \<not> mDemandMode (mOutData (processOutputs exForcedSupply))"
  using processOutputs_supply_mode [of exForcedSupply]
  by (simp add: exForcedSupply_facts)

text \<open>
  Claim C4, amended: \<open>processOutputs\<close> takes a link in Supply mode to Demand mode
  exactly when the Supply force flag is not set, the frames since the last flip exceed
  the loop latency, and the outgoing capacitance just computed by \<open>outputCapacitance\<close>,
  times the moding capacitance ratio, is less than the incoming capacitance; on that
  flip the node's volume is saved, the capacitor is asked to edit its volume to 0 and the
  outgoing source is zeroed.  A link in Demand mode is still in Demand mode after
  \<open>processOutputs\<close>.
\<close>

theorem processOutputs_capacitance_flip:
  "(\<not> mDemandMode (mOutData s) \<longrightarrow>
      (mDemandMode (mOutData (processOutputs s)) \<longleftrightarrow>
         \<not> mForceSupplyMode s \<and> mFramesSinceFlip s > mLoopLatency s
         \<and> mCapacitance (mOutData (outputCapacitance s)) * mModingCapacitanceRatio s
             < mCapacitance (mInData s)))
   \<and> (\<not> mDemandMode (mOutData s) \<and> mDemandMode (mOutData (processOutputs s)) \<longrightarrow>
        mSupplyVolume (processOutputs s) = nVolume (mNode s)
        \<and> mEditVolumeFlag (mCapacitorLink (processOutputs s))
        \<and> mEditVolume (mCapacitorLink (processOutputs s)) = 0
        \<and> mSource (mOutData (processOutputs s)) = 0)
   \<and> (mDemandMode (mOutData s) \<longrightarrow> mDemandMode (mOutData (processOutputs s)))"
  using processOutputs_supply_mode [of s] processOutputs_flip_effects [of s]
        processOutputs_demand_mode [of s]
  by blast

theorem processOutputs_capacitance_flip_witness:
  "\<not> mDemandMode (mOutData exCapFlip) \<and> \<not> mForceSupplyMode exCapFlip
   \<and> mLoopLatency exCapFlip < mFramesSinceFlip exCapFlip
   \<and> mCapacitance (mOutData (outputCapacitance exCapFlip)) * mModingCapacitanceRatio exCapFlip
      < mCapacitance (mInData exCapFlip)
   \<and> mDemandMode (mOutData (processOutputs exCapFlip))
   \<and> mSupplyVolume (processOutputs exCapFlip) = 1
   \<and> mEditVolume (mCapacitorLink (processOutputs exCapFlip)) = 0
   \<and> mSource (mOutData (processOutputs exCapFlip)) = 0
   \<and> mDemandMode (mOutData (exDemand 1))
   \<and> mDemandMode (mOutData (processOutputs (exDemand 1)))"
  using processOutputs_capacitance_flip [of exCapFlip]
        processOutputs_capacitance_flip [of "exDemand 1"]
  by (simp add: exCapFlip_facts exDemand_fields)

subsection \<open>Ticks on an invalid payload\<close>

lemma stepConductivity_kept:
  "mOutData (stepConductivity dt s) = mOutData s"
  "mInData (stepConductivity dt s) = mInData s"
  "mForceDemandMode (stepConductivity dt s) = mForceDemandMode s"
  "mForceSupplyMode (stepConductivity dt s) = mForceSupplyMode s"
  "mNode (stepConductivity dt s) = mNode s"
  "mFramesSinceFlip (stepConductivity dt s) = mFramesSinceFlip s"
  "mLoopLatency (stepConductivity dt s) = mLoopLatency s"
  "mModingCapacitanceRatio (stepConductivity dt s) = mModingCapacitanceRatio s"
  "mSourcePressure (stepConductivity dt s) = mSourcePressure s"
  "mDemandFlux (stepConductivity dt s) = mDemandFlux s"
  by (simp_all add: stepConductivity_def Let_def)

lemma step_kept:
  "mOutData (step dt s) = mOutData s" "mInData (step dt s) = mInData s"
  "mForceDemandMode (step dt s) = mForceDemandMode s"
  "mForceSupplyMode (step dt s) = mForceSupplyMode s"
  "nPotential (mNode (step dt s)) = nPotential (mNode s)"
  "mFramesSinceFlip (step dt s) = mFramesSinceFlip s"
  "mLoopLatency (step dt s) = mLoopLatency s"
  "mModingCapacitanceRatio (step dt s) = mModingCapacitanceRatio s"
  "mSourcePressure (step dt s) = mSourcePressure s"
  by (simp_all add: step_def Let_def stepConductivity_kept)

lemma solved_kept:
  "mOutData (solved ti s) = mOutData s" "mInData (solved ti s) = mInData s"
  "mForceDemandMode (solved ti s) = mForceDemandMode s"
  "mForceSupplyMode (solved ti s) = mForceSupplyMode s"
  by (simp_all add: solved_def)

lemma flipModesOnInput_invalid:
  assumes "hasValidData (mInData s) = Some False"
    and "\<not> mForceDemandMode s" and "\<not> mForceSupplyMode s"
  shows "flipModesOnInput s = Returned () s"
  using assms by (simp add: flipModesOnInput_def)

lemma processInputs_invalid:
  assumes hv: "hasValidData (mInData s) = Some False"
    and nf: "\<not> mForceDemandMode s" "\<not> mForceSupplyMode s"
  shows "processInputs s =
           Returned ()
             (s\<lparr> mSourcePressure := (if mDemandMode (mOutData s) then nPotential (mNode s) else 0),
                  mDemandFlux := 0,
                  mOutData := (mOutData s)\<lparr> mFrameCount := mFrameCount (mOutData s) + 1,
                                              mFrameLoopback := mFrameCount (mInData s) \<rparr>,
                  mLoopLatency := int (mFrameCount (mOutData s) + 1)
                                  - int (mFrameLoopback (mInData s)) \<rparr>)"
proof (cases "mDemandMode (mOutData s)")
  case True
  have d: "processInputsDemand s = Returned () (s\<lparr> mSourcePressure := nPotential (mNode s) \<rparr>)"
    by (rule processInputsDemand_hold [OF True hv]) simp
  have p: "processInputsSupply (s\<lparr> mSourcePressure := nPotential (mNode s) \<rparr>)
             = Returned () (s\<lparr> mSourcePressure := nPotential (mNode s), mDemandFlux := 0 \<rparr>)"
    using processInputsSupply_demand [of "s\<lparr> mSourcePressure := nPotential (mNode s) \<rparr>"] True
    by simp
  show ?thesis
    unfolding processInputs_returned [OF flipModesOnInput_invalid [OF hv nf] d p]
    using True by simp
next
  case False
  have d: "processInputsDemand s = Returned () s"
    by (rule processInputsDemand_supply [OF False])
  have p: "processInputsSupply s = Returned () (s\<lparr> mDemandFlux := 0, mSourcePressure := 0 \<rparr>)"
    by (rule processInputsSupply_idle [OF False hv]) simp
  show ?thesis
    unfolding processInputs_returned [OF flipModesOnInput_invalid [OF hv nf] d p]
    using False by simp
qed

text \<open>One tick on an invalid payload, without force flags.\<close>

lemma invalid_tick:
  assumes hv: "hasValidData (tiInData ti) = Some False"
    and nf: "\<not> mForceDemandMode s" "\<not> mForceSupplyMode s"
  shows "neutralTick ti s"
    and "\<exists>s'. tick ti s = Returned () s'
           \<and> \<not> mForceDemandMode s' \<and> \<not> mForceSupplyMode s'
           \<and> (mDemandMode (mOutData s) \<longrightarrow> mDemandMode (mOutData s'))"
proof -
  let ?r = "receive ti s"
  have hv': "hasValidData (mInData ?r) = Some False" using hv by (simp add: receive_def)
  have nf': "\<not> mForceDemandMode ?r" "\<not> mForceSupplyMode ?r"
    using nf by (simp_all add: receive_def)
  note p = processInputs_invalid [OF hv' nf']
  let ?s1 = "?r\<lparr> mSourcePressure := (if mDemandMode (mOutData ?r) then nPotential (mNode ?r) else 0),
                  mDemandFlux := 0,
                  mOutData := (mOutData ?r)\<lparr> mFrameCount := mFrameCount (mOutData ?r) + 1,
                                              mFrameLoopback := mFrameCount (mInData ?r) \<rparr>,
                  mLoopLatency := int (mFrameCount (mOutData ?r) + 1)
                                  - int (mFrameLoopback (mInData ?r)) \<rparr>"
  let ?s2 = "solved ti (step (tiDt ti) ?s1)"
  have m1: "mDemandMode (mOutData ?s1) = mDemandMode (mOutData s)"
    by (simp add: receive_def)
  have m2: "mDemandMode (mOutData ?s2) = mDemandMode (mOutData s)"
    by (simp add: solved_kept step_kept receive_def)
  have sv: "\<not> mDemandMode (mOutData s) \<longrightarrow> mSourceVector (step (tiDt ti) ?s1) = 0"
    using step_supply_sourceVector [of ?s1 "tiDt ti"] m1 by simp
  have d: "mDemandMode (mOutData s) \<longrightarrow> mDemandMode (mOutData (processOutputs ?s2))"
    using processOutputs_demand_mode [of ?s2] m2 by simp
  have k: "\<not> mDemandMode (mOutData s) \<and> \<not> capacitanceFlipDue ?s2 \<longrightarrow>
             \<not> mDemandMode (mOutData (processOutputs ?s2))
             \<and> mSource (mOutData (processOutputs ?s2)) = nPotential (mNode ?s2) * UNIT_PER_KILO"
    using processOutputs_supply_stays(1,2) [of ?s2] m2
    unfolding capacitanceFlipDue_def by blast
  show "neutralTick ti s"
    unfolding neutralTick_def p using sv d k
    by (simp add: Let_def receive_def)
  have t: "tick ti s = Returned () (processOutputs ?s2)"
    unfolding tick_def p by simp
  have f: "\<not> mForceDemandMode (processOutputs ?s2)" "\<not> mForceSupplyMode (processOutputs ?s2)"
    using nf by (simp_all add: processOutputs_kept solved_kept step_kept receive_def)
  show "\<exists>s'. tick ti s = Returned () s'
           \<and> \<not> mForceDemandMode s' \<and> \<not> mForceSupplyMode s'
           \<and> (mDemandMode (mOutData s) \<longrightarrow> mDemandMode (mOutData s'))"
    using t f d by blast
qed

lemma exSilentTick_invalid: "hasValidData (tiInData exSilentTick) = Some False"
  by (simp add: exSilentTick_def hasValidData_def exData_def initializeData_def newIfData_def)

lemma exLink_noforce:
  "\<not> mForceDemandMode exLink" "\<not> mForceSupplyMode exLink" "\<not> mDemandMode (mOutData exLink)"
  "\<not> mForceDemandMode (exDemand n)" "\<not> mForceSupplyMode (exDemand n)"
  by (simp_all add: exDemand_def exLink_def exData_def initializeData_def newIfData_def)

lemma exRejectedTick_invalid: "hasValidData (tiInData exRejectedTick) = Some False"
  by (simp add: exRejectedTick_def hasValidData_def payload_def)

lemma stepConductivity_kept_more:
  "mOtherIfs (stepConductivity dt s) = mOtherIfs s"
  "mNodeMap0 (stepConductivity dt s) = mNodeMap0 s"
  by (simp_all add: stepConductivity_def Let_def)

lemma step_supply_kept:
  "\<not> mDemandMode (mOutData s) \<Longrightarrow> mSuppliedCapacitance (step dt s) = 0"
  "mNode (step dt s) = (mNode s)\<lparr> nNetworkCapacitanceRequest := mNetworkCapacitanceFlux \<rparr>"
  "mOtherIfs (step dt s) = mOtherIfs s"
  "mNodeMap0 (step dt s) = mNodeMap0 s"
  by (simp_all add: step_def Let_def stepConductivity_kept stepConductivity_kept_more)

lemma exCapFlip_more:
  "\<not> mForceDemandMode exCapFlip" "mFrameCount (mOutData exCapFlip) = 0"
  "nNetworkCapacitance (mNode exCapFlip) = 10" "mOtherIfs exCapFlip = []"
  by (simp_all add: exCapFlip_def exLink_def exData_def exNode_def initializeData_def
      newIfData_def)

text \<open>
  Claim C7, as stated: on a tick whose incoming payload fails the validity check, the
  link without force flags stays in its mode and the outgoing source of a link in
  Supply mode is 0.  Neither holds.  After a tick on which nothing arrived the link is
  still in Supply mode and publishes the pressure of its node, 101325 Pa.  And on a
  tick whose payload is rejected for its energy of 0, but advertises a capacitance of
  100 against a local capacitance of 10, the flip on capacitance takes the link from
  Supply to Demand mode.
\<close>

theorem silent_tick_source_counterexample:
  "\<not> mForceDemandMode exLink \<and> \<not> mForceSupplyMode exLink
   \<and> \<not> mDemandMode (mOutData exLink)
   \<and> hasValidData (tiInData exSilentTick) = Some False
   \<and> map_option (mDemandMode \<circ> mOutData) (leftState (tick exSilentTick exLink))
      = Some False
   \<and> map_option (mSource \<circ> mOutData) (leftState (tick exSilentTick exLink))
      = Some 101325
   \<and> \<not> mForceDemandMode exCapFlip \<and> \<not> mForceSupplyMode exCapFlip
   \<and> \<not> mDemandMode (mOutData exCapFlip)
   \<and> hasValidData (tiInData exRejectedTick) = Some False
   \<and> map_option (mDemandMode \<circ> mOutData) (leftState (tick exRejectedTick exCapFlip))
      = Some True"
proof -
  let ?r = "receive exSilentTick exLink"
  have hv: "hasValidData (mInData ?r) = Some False"
    using exSilentTick_invalid by (simp add: receive_def)
  have nf: "\<not> mForceDemandMode ?r" "\<not> mForceSupplyMode ?r"
    using exLink_noforce by (simp_all add: receive_def)
  note p = processInputs_invalid [OF hv nf]
  let ?s1 = "?r\<lparr> mSourcePressure := (if mDemandMode (mOutData ?r) then nPotential (mNode ?r) else 0),
                  mDemandFlux := 0,
                  mOutData := (mOutData ?r)\<lparr> mFrameCount := mFrameCount (mOutData ?r) + 1,
                                              mFrameLoopback := mFrameCount (mInData ?r) \<rparr>,
                  mLoopLatency := int (mFrameCount (mOutData ?r) + 1)
                                  - int (mFrameLoopback (mInData ?r)) \<rparr>"
  let ?s2 = "solved exSilentTick (step (tiDt exSilentTick) ?s1)"
  have t: "tick exSilentTick exLink = Returned () (processOutputs ?s2)"
    unfolding tick_def p by simp
  have m: "\<not> mDemandMode (mOutData ?s2)"
    using exLink_noforce by (simp add: solved_kept step_kept receive_def)
  have fr: "mFramesSinceFlip ?s2 = 0"
    by (simp add: solved_def step_kept receive_def exLink_def)
  have la: "mLoopLatency ?s2 = 1"
    by (simp add: solved_def step_kept receive_def exLink_def exSilentTick_def exData_def
        initializeData_def newIfData_def)
  have po: "nPotential (mNode ?s2) = 101325 / 1000"
    by (simp add: solved_def step_kept receive_def exLink_def exSilentTick_def exNode_def)
  have nd: "\<not> (mLoopLatency ?s2 < mFramesSinceFlip ?s2
           \<and> mCapacitance (mOutData (outputCapacitance ?s2)) * mModingCapacitanceRatio ?s2
               < mCapacitance (mInData ?s2))"
    unfolding fr la by simp
  note st = processOutputs_supply_stays(1,2) [OF m nd]
  have first: "map_option (mDemandMode \<circ> mOutData) (leftState (tick exSilentTick exLink))
      = Some False
   \<and> map_option (mSource \<circ> mOutData) (leftState (tick exSilentTick exLink))
      = Some 101325"
    unfolding t using st po by (simp add: leftState_def UNIT_PER_KILO_def)

  let ?q = "receive exRejectedTick exCapFlip"
  have hvq: "hasValidData (mInData ?q) = Some False"
    using exRejectedTick_invalid by (simp add: receive_def)
  have nfq: "\<not> mForceDemandMode ?q" "\<not> mForceSupplyMode ?q"
    using exCapFlip_more(1) exCapFlip_facts(2) by (simp_all add: receive_def)
  note pq = processInputs_invalid [OF hvq nfq]
  let ?q1 = "?q\<lparr> mSourcePressure := (if mDemandMode (mOutData ?q) then nPotential (mNode ?q) else 0),
                  mDemandFlux := 0,
                  mOutData := (mOutData ?q)\<lparr> mFrameCount := mFrameCount (mOutData ?q) + 1,
                                              mFrameLoopback := mFrameCount (mInData ?q) \<rparr>,
                  mLoopLatency := int (mFrameCount (mOutData ?q) + 1)
                                  - int (mFrameLoopback (mInData ?q)) \<rparr>"
  let ?q2 = "solved exRejectedTick (step (tiDt exRejectedTick) ?q1)"
  have tq: "tick exRejectedTick exCapFlip = Returned () (processOutputs ?q2)"
    unfolding tick_def pq by simp
  have mq1: "\<not> mDemandMode (mOutData ?q1)"
    using exCapFlip_facts(1) by (simp add: receive_def)
  have mq: "\<not> mDemandMode (mOutData ?q2)"
    using exCapFlip_facts(1) by (simp add: solved_kept step_kept receive_def)
  have fsq: "\<not> mForceSupplyMode ?q2"
    using exCapFlip_facts(2) by (simp add: solved_kept step_kept receive_def)
  have frq: "mFramesSinceFlip ?q2 = 5"
    using exCapFlip_facts(3) by (simp add: solved_def step_kept receive_def)
  have laq: "mLoopLatency ?q2 = 1"
    using exCapFlip_more(2)
    by (simp add: solved_def step_kept receive_def exRejectedTick_def payload_def)
  have raq: "mModingCapacitanceRatio ?q2 = 5 / 4"
    using exCapFlip_facts(5) by (simp add: solved_def step_kept receive_def)
  have inq: "mCapacitance (mInData ?q2) = 100"
    by (simp add: solved_kept step_kept receive_def exRejectedTick_def payload_def)
  have sc: "mSuppliedCapacitance ?q2 = 0"
    using step_supply_kept(1) [OF mq1, of "tiDt exRejectedTick"] by (simp add: solved_def)
  have nc: "nNetworkCapacitance (mNode ?q2) = 10"
    using exCapFlip_more(3)
    by (simp add: solved_def step_supply_kept receive_def exRejectedTick_def)
  have oi: "mOtherIfs ?q2 = []"
    by (simp add: solved_def exRejectedTick_def)
  have cq: "mCapacitance (mOutData (outputCapacitance ?q2)) = 10"
    unfolding outputCapacitance_def Let_def using sc nc oi by simp
  have second: "map_option (mDemandMode \<circ> mOutData) (leftState (tick exRejectedTick exCapFlip))
      = Some True"
    unfolding tq using processOutputs_supply_mode [OF mq] fsq frq laq raq inq cq
    by (simp add: leftState_def)
  show ?thesis
    using first second exLink_noforce exSilentTick_invalid exRejectedTick_invalid
      exCapFlip_more(1) exCapFlip_facts(1,2)
    by simp
qed

text \<open>
  Claim C7, amended: for a link without force flags and any number of consecutive ticks
  on whose incoming payload \<open>hasValidData\<close> returns false, every tick returns without
  an error and is neutral: input processing keeps the mode and the node, leaves a demand
  flux of 0 and a source pressure of 0 in Supply mode and of the node's potential in
  Demand mode, and \<open>step\<close> stamps a source of 0 in Supply mode; output processing keeps
  a Demand side in Demand mode and, while the flip on capacitance is not due, keeps a
  Supply side in Supply mode with the node's pressure in Pa as outgoing source.  A link
  that starts the run in Demand mode ends it in Demand mode.
\<close>

theorem invalid_ticks_neutral:
  assumes "\<not> mForceDemandMode s" and "\<not> mForceSupplyMode s"
    and "\<forall>ti \<in> set tis. hasValidData (tiInData ti) = Some False"
  shows "neutralRun tis s
       \<and> (\<exists>s'. ticks tis s = Returned () s'
             \<and> (mDemandMode (mOutData s) \<longrightarrow> mDemandMode (mOutData s')))"
  using assms
proof (induction tis arbitrary: s)
  case Nil
  then show ?case by simp
next
  case (Cons ti tis)
  have hv: "hasValidData (tiInData ti) = Some False" using Cons.prems(3) by simp
  note n = invalid_tick(1) [OF hv Cons.prems(1,2)]
  obtain s1 where t: "tick ti s = Returned () s1"
    and f: "\<not> mForceDemandMode s1" "\<not> mForceSupplyMode s1"
    and d: "mDemandMode (mOutData s) \<longrightarrow> mDemandMode (mOutData s1)"
    using invalid_tick(2) [OF hv Cons.prems(1,2)] by blast
  have rest: "\<forall>ti \<in> set tis. hasValidData (tiInData ti) = Some False"
    using Cons.prems(3) by simp
  from Cons.IH [OF f rest] obtain s' where
    nr: "neutralRun tis s1" and r: "ticks tis s1 = Returned () s'"
    and d': "mDemandMode (mOutData s1) \<longrightarrow> mDemandMode (mOutData s')"
    by blast
  show ?case using n t nr r d d' by simp
qed

theorem invalid_ticks_neutral_witness:
  "\<not> mForceDemandMode (exDemand 1) \<and> \<not> mForceSupplyMode (exDemand 1)
   \<and> hasValidData (tiInData exSilentTick) = Some False
   \<and> mDemandMode (mOutData (exDemand 1))
   \<and> neutralRun [exSilentTick, exSilentTick] (exDemand 1)
   \<and> raised (ticks [exSilentTick, exSilentTick] (exDemand 1)) = None
   \<and> map_option (\<lambda>s'. mDemandMode (mOutData s'))
        (leftState (ticks [exSilentTick, exSilentTick] (exDemand 1))) = Some True
   \<and> \<not> mForceDemandMode exLink \<and> \<not> mForceSupplyMode exLink
   \<and> neutralRun [exSilentTick, exSilentTick] exLink
   \<and> raised (ticks [exSilentTick, exSilentTick] exLink) = None"
proof -
  have h: "\<forall>ti \<in> set [exSilentTick, exSilentTick]. hasValidData (tiInData ti) = Some False"
    by (simp add: exSilentTick_invalid)
  note w = invalid_ticks_neutral [OF exLink_noforce(4,5) h, of 1]
  then obtain s' where "ticks [exSilentTick, exSilentTick] (exDemand 1) = Returned () s'"
    and "mDemandMode (mOutData s')"
    using exDemand_fields(1) by blast
  moreover note w' = invalid_ticks_neutral [OF exLink_noforce(1,2) h]
  moreover from w' obtain s'' where "ticks [exSilentTick, exSilentTick] exLink = Returned () s''"
    by blast
  ultimately show ?thesis
    using w exLink_noforce exSilentTick_invalid exDemand_fields(1)
    by (simp add: raised_def leftState_def)
qed

end
